theory Spec2Isabelle
  imports Complex_Main "HOL-Library.Word"
begin

section \<open>APDde: disparity to depth, detection fusion and the control loop\<close>

text \<open>
  A shallow embedding of \<^verbatim>\<open>APDde.py\<close>. Python floats and numpy \<^verbatim>\<open>float64\<close> values are
  modelled by exact reals; where the rounding of binary floating point decides a
  property (the normalisation of line 132) the rounding is a parameter of the
  definition. The special values a numpy division can produce are kept apart in
  \<open>npfloat\<close>. numpy \<^verbatim>\<open>uint8\<close> samples are \<open>8 word\<close>; Python integers are \<open>int\<close>.
  What the device and the libraries supply (resolution, calibration, the colour map and
  the drawing functions of OpenCV) is a parameter of the model.
\<close>

subsection \<open>Errors and numeric conversions\<close>

datatype error = IndexError | TypeError | ZeroDivisionError

text \<open>Python's \<^verbatim>\<open>int(x)\<close> and numpy's \<^verbatim>\<open>astype(int)\<close> on a float: the fraction is dropped,
  towards zero.\<close>

definition py_int :: "real \<Rightarrow> int" where
  "py_int x = (if 0 \<le> x then \<lfloor>x\<rfloor> else \<lceil>x\<rceil>)"

text \<open>\<^verbatim>\<open>astype(np.uint8)\<close>: the fraction is dropped and the integer is reduced to its low
  eight bits.\<close>

definition astype_uint8 :: "real \<Rightarrow> 8 word" where
  "astype_uint8 x = word_of_int (py_int x)"

text \<open>\<^verbatim>\<open>np.clip(x, lo, hi)\<close>.\<close>

definition np_clip :: "real \<Rightarrow> real \<Rightarrow> real \<Rightarrow> real" where
  "np_clip x lo hi = min hi (max x lo)"

text \<open>A numpy float: a finite value, or what a division by zero leaves behind.\<close>

datatype npfloat = Fin real | PosInf | NegInf | NaN

text \<open>\<^verbatim>\<open>x / y\<close> on numpy floats under \<^verbatim>\<open>np.errstate(divide='ignore', invalid='ignore')\<close>:
  nothing is raised, a zero divisor gives an infinity or NaN.\<close>

definition np_divide :: "real \<Rightarrow> real \<Rightarrow> npfloat" where
  "np_divide x y =
     (if y = 0 then (if 0 < x then PosInf else if x < 0 then NegInf else NaN)
      else Fin (x / y))"

subsection \<open>Arrays\<close>

text \<open>A two-dimensional numpy array: its shape and its cells (row, column).\<close>

record 'a grid =
  nrows :: nat
  ncols :: nat
  cell :: "nat \<Rightarrow> nat \<Rightarrow> 'a"

definition gmap :: "('a \<Rightarrow> 'b) \<Rightarrow> 'a grid \<Rightarrow> 'b grid" where
  "gmap f g = \<lparr>nrows = nrows g, ncols = ncols g, cell = (\<lambda>r c. f (cell g r c))\<rparr>"

text \<open>One axis of a numpy index: a negative index counts from the end, anything outside
  raises.\<close>

definition axis_index :: "nat \<Rightarrow> int \<Rightarrow> error + nat" where
  "axis_index n i =
     (let j = (if i < 0 then int n + i else i)
      in if 0 \<le> j \<and> j < int n then Inr (nat j) else Inl IndexError)"

text \<open>\<^verbatim>\<open>a[row, col]\<close>.\<close>

definition grid_get :: "'a grid \<Rightarrow> int \<Rightarrow> int \<Rightarrow> error + 'a" where
  "grid_get g row col =
     (case axis_index (nrows g) row of
        Inl e \<Rightarrow> Inl e
      | Inr r \<Rightarrow> (case axis_index (ncols g) col of
                    Inl e \<Rightarrow> Inl e
                  | Inr c \<Rightarrow> Inr (cell g r c)))"

subsection \<open>Disparity normalisation and depth (lines 25, 82, 131-135)\<close>

definition baseline :: real where
  "baseline = 75 / 1000"

text \<open>\<^verbatim>\<open>disparityMultiplier = 255 / depth.initialConfig.getMaxDisparity()\<close>.\<close>

definition disparityMultiplier :: "real \<Rightarrow> error + real" where
  "disparityMultiplier maxDisparity =
     (if maxDisparity = 0 then Inl ZeroDivisionError else Inr (255 / maxDisparity))"

text \<open>One sample of \<^verbatim>\<open>(frameDisparity*disparityMultiplier).astype(np.uint8)\<close>.\<close>

definition normalize_px :: "real \<Rightarrow> nat \<Rightarrow> 8 word" where
  "normalize_px mult raw = astype_uint8 (real raw * mult)"

text \<open>One sample of \<^verbatim>\<open>(focal_length * baseline) / (frameDisparity)\<close>.\<close>

definition divide_px :: "real \<Rightarrow> 8 word \<Rightarrow> npfloat" where
  "divide_px focal_length d = np_divide (focal_length * baseline) (real (unat d))"

text \<open>\<^verbatim>\<open>depth_calculated[frameDisparity == 0] = 0\<close>.\<close>

definition mask_zero :: "npfloat grid \<Rightarrow> 8 word grid \<Rightarrow> npfloat grid" where
  "mask_zero dep fd = dep\<lparr>cell := (\<lambda>r c. if cell fd r c = 0 then Fin 0 else cell dep r c)\<rparr>"

definition normalize_frame :: "real \<Rightarrow> nat grid \<Rightarrow> 8 word grid" where
  "normalize_frame mult raw = gmap (normalize_px mult) raw"

definition depth_of_frame :: "real \<Rightarrow> 8 word grid \<Rightarrow> npfloat grid" where
  "depth_of_frame focal_length fd = mask_zero (gmap (divide_px focal_length) fd) fd"

text \<open>The depth the code computes from one raw sample.\<close>

definition depth_of_raw :: "real \<Rightarrow> real \<Rightarrow> nat \<Rightarrow> npfloat" where
  "depth_of_raw mult focal_length raw =
     (let d = normalize_px mult raw
      in if d = 0 then Fin 0 else divide_px focal_length d)"

text \<open>The normalisation as the specification words it: round, then clamp to 0..255.\<close>

definition clamp :: "int \<Rightarrow> int \<Rightarrow> int \<Rightarrow> int" where
  "clamp x lo hi = max lo (min hi x)"

definition normalizedDisparity_spec :: "real \<Rightarrow> nat \<Rightarrow> int" where
  "normalizedDisparity_spec maxDisparity raw =
     clamp (round (real raw * (255 / maxDisparity))) 0 255"

text \<open>Lines 82 and 132 with the rounding of binary floating point made explicit: \<open>fl\<close> is
  the rounding that the quotient and the product each go through. \<open>disparityMultiplier\<close>
  and \<open>normalize_px\<close> above are the same lines without rounding.\<close>

definition disparityMultiplier_fl :: "(real \<Rightarrow> real) \<Rightarrow> real \<Rightarrow> error + real" where
  "disparityMultiplier_fl fl maxDisparity =
     (if maxDisparity = 0 then Inl ZeroDivisionError else Inr (fl (255 / maxDisparity)))"

definition normalize_px_fl :: "(real \<Rightarrow> real) \<Rightarrow> real \<Rightarrow> nat \<Rightarrow> 8 word" where
  "normalize_px_fl fl mult raw = astype_uint8 (fl (real raw * mult))"

subsection \<open>Labels and detections (lines 19-22)\<close>

definition labelMap :: "string list" where
  "labelMap = [''background'', ''aeroplane'', ''bicycle'', ''bird'', ''boat'', ''bottle'',
     ''bus'', ''car'', ''cat'', ''chair'', ''cow'', ''diningtable'', ''dog'', ''horse'',
     ''motorbike'', ''person'', ''pottedplant'', ''sheep'', ''sofa'', ''train'',
     ''tvmonitor'']"

definition includedLabels :: "string list" where
  "includedLabels = [''person'', ''car'', ''motorbike'', ''bicycle'', ''bus'', ''aeroplane'',
     ''background'', ''train'']"

text \<open>A detection as the device delivers it: the label is an unsigned class id.\<close>

record detection =
  label :: nat
  confidence :: real
  xmin :: real
  ymin :: real
  xmax :: real
  ymax :: real

text \<open>\<^verbatim>\<open>xs[i]\<close> on a Python list with a non-negative index.\<close>

definition list_get :: "'a list \<Rightarrow> nat \<Rightarrow> error + 'a" where
  "list_get xs i = (if i < length xs then Inr (xs ! i) else Inl IndexError)"

subsection \<open>Text formatting\<close>

definition digit_char :: "nat \<Rightarrow> char" where
  "digit_char d = ''0123456789'' ! d"

fun str_nat :: "nat \<Rightarrow> string" where
  "str_nat n = (if n < 10 then [digit_char n] else str_nat (n div 10) @ [digit_char (n mod 10)])"

declare str_nat.simps [simp del]

text \<open>\<^verbatim>\<open>str(i)\<close> of a Python integer, as an f-string inserts it.\<close>

definition str_int :: "int \<Rightarrow> string" where
  "str_int i = (if i < 0 then ''-'' @ str_nat (nat (- i)) else str_nat (nat i))"

text \<open>Rounding to the nearest integer with ties to the even one, as the float formatting
  of Python does.\<close>

definition round_half_even :: "real \<Rightarrow> int" where
  "round_half_even y =
     (let f = \<lfloor>y\<rfloor>; r = y - of_int f
      in if r < 1 / 2 then f else if 1 / 2 < r then f + 1 else if even f then f else f + 1)"

text \<open>\<^verbatim>\<open>f"{x:.2f}"\<close> on a finite value.\<close>

definition fixed2 :: "real \<Rightarrow> string" where
  "fixed2 x =
     (let q = nat (round_half_even (\<bar>x\<bar> * 100))
      in (if x < 0 then ''-'' else []) @ str_nat (q div 100) @ ''.''
           @ [digit_char (q mod 100 div 10), digit_char (q mod 10)])"

definition format_2f :: "npfloat \<Rightarrow> string" where
  "format_2f v = (case v of Fin x \<Rightarrow> fixed2 x | PosInf \<Rightarrow> ''inf'' | NegInf \<Rightarrow> ''-inf''
                  | NaN \<Rightarrow> ''nan'')"

text \<open>\<^verbatim>\<open>f"{int(detection.confidence * 100)}%"\<close>.\<close>

definition percent_text :: "real \<Rightarrow> string" where
  "percent_text conf = str_int (py_int (conf * 100)) @ ''%''"

subsection \<open>Session constants and what the libraries supply\<close>

text \<open>What is fixed once the pipeline is set up: the focal length read from the
  calibration, the multiplier of line 82, and the resolution of the mono camera.\<close>

record session =
  focal_length :: real
  multiplier :: real
  resolutionWidth :: nat
  resolutionHeight :: nat

type_synonym colour = "8 word \<times> 8 word \<times> 8 word"
type_synonym image = "colour grid"
type_synonym point = "int \<times> int"

text \<open>OpenCV is not part of the program. Its colour map and its two drawing functions are
  parameters: a drawing function takes the buffer and the arguments of the call (corners
  or text and origin, colour, thickness) and gives the buffer after the call. The font and
  the scale are the same in every call of \<^verbatim>\<open>cv2.putText\<close>.\<close>

record cvlib =
  applyColorMap :: "8 word \<Rightarrow> colour"
  rectangle :: "image \<Rightarrow> point \<Rightarrow> point \<Rightarrow> colour \<Rightarrow> int \<Rightarrow> image"
  putText :: "image \<Rightarrow> string \<Rightarrow> point \<Rightarrow> colour \<Rightarrow> image"

definition color :: colour where
  "color = (0, 255, 0)"

subsection \<open>Bounding boxes (lines 102-109, 144-145)\<close>

text \<open>\<^verbatim>\<open>offsetX = (width - height) // 2\<close>.\<close>

definition offsetX :: "session \<Rightarrow> int" where
  "offsetX cfg = (int (resolutionWidth cfg) - int (resolutionHeight cfg)) div 2"

text \<open>The shape of \<^verbatim>\<open>croppedFrame = np.zeros((height, height))\<close>.\<close>

definition croppedFrame_shape :: "session \<Rightarrow> nat \<times> nat" where
  "croppedFrame_shape cfg = (resolutionHeight cfg, resolutionHeight cfg)"

text \<open>\<^verbatim>\<open>frameNorm(frame, bbox)\<close>: \<open>shape\<close> is \<^verbatim>\<open>frame.shape\<close>, rows first. The entries at
  even positions are scaled by \<^verbatim>\<open>shape[1]\<close>, the others by \<^verbatim>\<open>shape[0]\<close>.\<close>

definition frameNorm :: "nat \<times> nat \<Rightarrow> real list \<Rightarrow> int list" where
  "frameNorm shape bbox =
     (let normVals = map (\<lambda>i. if even i then snd shape else fst shape) [0..<length bbox]
      in map (\<lambda>(v, n). py_int (np_clip v 0 1 * real n)) (zip bbox normVals))"

text \<open>\<^verbatim>\<open>bbox[::2] += off\<close>.\<close>

definition add_even :: "int \<Rightarrow> int list \<Rightarrow> int list" where
  "add_even off bbox =
     map (\<lambda>(i, v). if even i then v + off else v) (zip [0..<length bbox] bbox)"

definition pixel_box :: "session \<Rightarrow> detection \<Rightarrow> int list" where
  "pixel_box cfg d =
     add_even (offsetX cfg) (frameNorm (croppedFrame_shape cfg) [xmin d, ymin d, xmax d, ymax d])"

text \<open>\<^verbatim>\<open>int((bbox[0]+bbox[2])/2), int((bbox[1]+bbox[3])/2)\<close>; the box has four entries.\<close>

definition center :: "int list \<Rightarrow> int \<times> int" where
  "center bbox =
     (py_int (real_of_int (bbox ! 0 + bbox ! 2) / 2), py_int (real_of_int (bbox ! 1 + bbox ! 3) / 2))"

subsection \<open>Program state and observable effects\<close>

text \<open>Every call that leaves the program is recorded, in order. \<open>Imshow\<close> shows the
  buffer \<^verbatim>\<open>frameDisparity\<close> holds at that moment. \<open>FileClose\<close> is the closing
  of \<^verbatim>\<open>video.h265\<close>.\<close>

datatype event =
    FileOpen
  | NamedWindow
  | FileWrite "8 word list"
  | Rectangle point point
  | PutText string point
  | Print string
  | Imshow
  | FileClose

text \<open>The variables of lines 26 and 98-101. \<^verbatim>\<open>depth_calculated\<close> starts as the integer 0,
  which is not an array: \<open>None\<close> here.\<close>

record state =
  frame :: "8 word grid option"
  frameManip :: "image option"
  frameDisparity :: "image option"
  detections :: "detection list"
  depth_calculated :: "npfloat grid option"
  trace :: "event list"

definition initial_state :: state where
  "initial_state =
     \<lparr>frame = None, frameManip = None, frameDisparity = None, detections = [],
      depth_calculated = None, trace = [FileOpen, NamedWindow]\<rparr>"

text \<open>What one pass of the loop finds: the result of each \<^verbatim>\<open>tryGet\<close>, the encoded packets
  the inner loop drains, and the key \<^verbatim>\<open>cv2.waitKey(1)\<close> returns.\<close>

record tick_input =
  inRight :: "8 word grid option"
  inManip :: "image option"
  inDet :: "detection list option"
  inDisparity :: "nat grid option"
  encoded :: "8 word list list"
  key :: int

definition ord_q :: int where
  "ord_q = 113"

subsection \<open>Drawing one detection (lines 143-153)\<close>

definition cv_rectangle :: "cvlib \<Rightarrow> point \<Rightarrow> point \<Rightarrow> state \<Rightarrow> state" where
  "cv_rectangle L pt1 pt2 s =
     s\<lparr>frameDisparity := map_option (\<lambda>img. rectangle L img pt1 pt2 color 2) (frameDisparity s),
       trace := trace s @ [Rectangle pt1 pt2]\<rparr>"

definition cv_putText :: "cvlib \<Rightarrow> string \<Rightarrow> point \<Rightarrow> state \<Rightarrow> state" where
  "cv_putText L txt org s =
     s\<lparr>frameDisparity := map_option (\<lambda>img. putText L img txt org color) (frameDisparity s),
       trace := trace s @ [PutText txt org]\<rparr>"

definition py_print :: "string \<Rightarrow> state \<Rightarrow> state" where
  "py_print txt s = s\<lparr>trace := trace s @ [Print txt]\<rparr>"

text \<open>\<^verbatim>\<open>depth_calculated[center_y, center_x]\<close>.\<close>

definition depth_lookup :: "npfloat grid option \<Rightarrow> int \<Rightarrow> int \<Rightarrow> error + npfloat" where
  "depth_lookup dc row col =
     (case dc of None \<Rightarrow> Inl TypeError | Some g \<Rightarrow> grid_get g row col)"

definition observability_line :: "string \<Rightarrow> npfloat \<Rightarrow> real \<Rightarrow> string" where
  "observability_line name depth_value conf =
     ''Item Classification: '' @ name @ '', Distance: '' @ format_2f depth_value
       @ ''m, Confidence: '' @ percent_text conf"

text \<open>The body of the loop over the detections. An exception leaves the drawing done
  so far in place; the second component is the exception, if any.\<close>

definition render_detection ::
  "session \<Rightarrow> cvlib \<Rightarrow> detection \<Rightarrow> state \<Rightarrow> state \<times> error option" where
  "render_detection cfg L d s =
     (case list_get labelMap (label d) of
        Inl e \<Rightarrow> (s, Some e)
      | Inr name \<Rightarrow>
          if name \<notin> set includedLabels then (s, None)
          else
            let bbox = pixel_box cfg d;
                s1 = cv_rectangle L (bbox ! 0, bbox ! 1) (bbox ! 2, bbox ! 3) s;
                s2 = cv_putText L name (bbox ! 0 + 10, bbox ! 1 + 20) s1;
                s3 = cv_putText L (percent_text (confidence d)) (bbox ! 0 + 10, bbox ! 1 + 40) s2;
                (center_x, center_y) = center bbox
            in case depth_lookup (depth_calculated s3) center_y center_x of
                 Inl e \<Rightarrow> (s3, Some e)
               | Inr depth_value \<Rightarrow>
                   (py_print (observability_line name depth_value (confidence d))
                      (cv_putText L (format_2f depth_value @ ''m'')
                         (bbox ! 0 + 10, bbox ! 1 + 60) s3),
                    None))"

fun render_detections ::
  "session \<Rightarrow> cvlib \<Rightarrow> detection list \<Rightarrow> state \<Rightarrow> state \<times> error option" where
  "render_detections cfg L [] s = (s, None)"
| "render_detections cfg L (d # ds) s =
     (case render_detection cfg L d s of
        (s', Some e) \<Rightarrow> (s', Some e)
      | (s', None) \<Rightarrow> render_detections cfg L ds s')"

subsection \<open>One pass of the main loop (lines 115-158)\<close>

text \<open>Lines 115-139: the packets are written to the file, then every stream that
  delivered something replaces its cached value.\<close>

definition poll :: "session \<Rightarrow> cvlib \<Rightarrow> tick_input \<Rightarrow> state \<Rightarrow> state" where
  "poll cfg L inp s =
     (let s1 = s\<lparr>trace := trace s @ map FileWrite (encoded inp)\<rparr>;
          s2 = (case inRight inp of None \<Rightarrow> s1 | Some f \<Rightarrow> s1\<lparr>frame := Some f\<rparr>);
          s3 = (case inManip inp of None \<Rightarrow> s2 | Some f \<Rightarrow> s2\<lparr>frameManip := Some f\<rparr>);
          s4 = (case inDisparity inp of
                  None \<Rightarrow> s3
                | Some raw \<Rightarrow>
                    let fd = normalize_frame (multiplier cfg) raw
                    in s3\<lparr>depth_calculated := Some (depth_of_frame (focal_length cfg) fd),
                          frameDisparity := Some (gmap (applyColorMap L) fd)\<rparr>)
      in (case inDet inp of None \<Rightarrow> s4 | Some ds \<Rightarrow> s4\<lparr>detections := ds\<rparr>))"

text \<open>Lines 141-155.\<close>

definition render :: "session \<Rightarrow> cvlib \<Rightarrow> state \<Rightarrow> state \<times> error option" where
  "render cfg L s =
     (case frameDisparity s of
        None \<Rightarrow> (s, None)
      | Some img \<Rightarrow>
          (case render_detections cfg L (detections s) s of
             (s', Some e) \<Rightarrow> (s', Some e)
           | (s', None) \<Rightarrow> (s'\<lparr>trace := trace s' @ [Imshow]\<rparr>, None)))"

definition tick :: "session \<Rightarrow> cvlib \<Rightarrow> tick_input \<Rightarrow> state \<Rightarrow> state \<times> error option" where
  "tick cfg L inp s = render cfg L (poll cfg L inp s)"

subsection \<open>The loop and the program (lines 98-162)\<close>

text \<open>Where the control loop stands after the inputs it was given: still polling, left
  through the quit key, or ended by an exception.\<close>

datatype status = Polling | Terminated | Raised error

text \<open>Lines 161-162, after the loop.\<close>

definition epilogue :: "state \<Rightarrow> state" where
  "epilogue s =
     py_print ''ffmpeg -framerate 30 -i video.h265 -c copy video.mp4''
       (py_print (''To view the encoded data, convert the stream file (.h265) into a ''
                    @ ''video file (.mp4) using a command below:'') s)"

text \<open>The \<^verbatim>\<open>while True\<close> loop over the passes the environment offers. The key is read at the
  end of a pass; \<^verbatim>\<open>q\<close> leaves the loop and whatever would have come next is never read.\<close>

fun run :: "session \<Rightarrow> cvlib \<Rightarrow> tick_input list \<Rightarrow> state \<Rightarrow> state \<times> status" where
  "run cfg L [] s = (s, Polling)"
| "run cfg L (inp # inps) s =
     (case tick cfg L inp s of
        (s', Some e) \<Rightarrow> (s', Raised e)
      | (s', None) \<Rightarrow>
          if key inp = ord_q then (epilogue s', Terminated) else run cfg L inps s')"

definition main :: "session \<Rightarrow> cvlib \<Rightarrow> tick_input list \<Rightarrow> state \<times> status" where
  "main cfg L inps = run cfg L inps initial_state"

subsection \<open>Concrete instances to evaluate the model on\<close>

text \<open>The 400P mono camera: 640 by 400. Focal length and maximal disparity are sample
  values.\<close>

definition session_400p :: session where
  "session_400p =
     \<lparr>focal_length = 450, multiplier = 255 / 95, resolutionWidth = 640, resolutionHeight = 400\<rparr>"

text \<open>A stand-in for OpenCV: a grey ramp for the colour map; drawing sets every covered
  pixel to the colour, a rectangle covers the outline of the box and a text a strip of
  eight pixels per character above its origin.\<close>

definition paint :: "(point \<Rightarrow> bool) \<Rightarrow> colour \<Rightarrow> image \<Rightarrow> image" where
  "paint covers col img =
     img\<lparr>cell := (\<lambda>r c. if covers (int c, int r) then col else cell img r c)\<rparr>"

definition sample_cv :: cvlib where
  "sample_cv =
     \<lparr>applyColorMap = (\<lambda>v. (v, v, v)),
      rectangle = (\<lambda>img (x1, y1) (x2, y2) col t.
         paint (\<lambda>(x, y).
           min x1 x2 \<le> x \<and> x \<le> max x1 x2 \<and> min y1 y2 \<le> y \<and> y \<le> max y1 y2 \<and>
           (x < min x1 x2 + t \<or> max x1 x2 - t < x \<or> y < min y1 y2 + t \<or> max y1 y2 - t < y))
           col img),
      putText = (\<lambda>img txt (x0, y0) col.
         paint (\<lambda>(x, y). x0 \<le> x \<and> x < x0 + 8 * int (length txt) \<and> y0 - 8 < y \<and> y \<le> y0)
           col img)\<rparr>"

definition black_frame :: "nat grid" where
  "black_frame = \<lparr>nrows = 400, ncols = 640, cell = (\<lambda>r c. 0)\<rparr>"

definition flat_frame :: "nat grid" where
  "flat_frame = \<lparr>nrows = 400, ncols = 640, cell = (\<lambda>r c. 20)\<rparr>"

definition person_mid :: detection where
  "person_mid =
     \<lparr>label = 15, confidence = 999 / 1000, xmin = 4 / 10, ymin = 4 / 10, xmax = 6 / 10,
      ymax = 6 / 10\<rparr>"

definition person_bottom :: detection where
  "person_bottom =
     \<lparr>label = 15, confidence = 9 / 10, xmin = 2 / 10, ymin = 1, xmax = 4 / 10, ymax = 1\<rparr>"

definition dog_mid :: detection where
  "dog_mid =
     \<lparr>label = 12, confidence = 8 / 10, xmin = 4 / 10, ymin = 4 / 10, xmax = 6 / 10,
      ymax = 6 / 10\<rparr>"

definition no_input :: tick_input where
  "no_input =
     \<lparr>inRight = None, inManip = None, inDet = None, inDisparity = None, encoded = [],
      key = - 1\<rparr>"

definition wild_box :: detection where
  "wild_box =
     \<lparr>label = 15, confidence = 9 / 10, xmin = - 2 / 10, ymin = 3 / 10, xmax = 13 / 10,
      ymax = 1 / 2\<rparr>"

definition input_bottom :: tick_input where
  "input_bottom = no_input\<lparr>inDisparity := Some flat_frame, inDet := Some [person_bottom]\<rparr>"

definition input_mid :: tick_input where
  "input_mid = no_input\<lparr>inDisparity := Some flat_frame, inDet := Some [dog_mid, person_mid]\<rparr>"

subsection \<open>The fuser and the renderer as the specification separates them\<close>

text \<open>An EnrichedDetection: the class name, the confidence, the pixel box and the depth
  sampled at the centre.\<close>

record enriched =
  e_name :: string
  e_confidence :: real
  e_box :: "int list"
  e_depth :: npfloat

text \<open>The DetectionFuser for one detection, with the steps of lines 143-151: \<open>None\<close> for a
  label that is not on the allow-list.\<close>

definition fuse :: "session \<Rightarrow> npfloat grid option \<Rightarrow> detection \<Rightarrow> error + enriched option" where
  "fuse cfg dc d =
     (case list_get labelMap (label d) of
        Inl e \<Rightarrow> Inl e
      | Inr name \<Rightarrow>
          if name \<notin> set includedLabels then Inr None
          else
            let bbox = pixel_box cfg d;
                (center_x, center_y) = center bbox
            in case depth_lookup dc center_y center_x of
                 Inl e \<Rightarrow> Inl e
               | Inr depth_value \<Rightarrow>
                   Inr (Some \<lparr>e_name = name, e_confidence = confidence d, e_box = bbox,
                              e_depth = depth_value\<rparr>))"

fun fuse_all :: "session \<Rightarrow> npfloat grid option \<Rightarrow> detection list \<Rightarrow> error + enriched list" where
  "fuse_all cfg dc [] = Inr []"
| "fuse_all cfg dc (d # ds) =
     (case fuse cfg dc d of
        Inl e \<Rightarrow> Inl e
      | Inr None \<Rightarrow> fuse_all cfg dc ds
      | Inr (Some en) \<Rightarrow>
          (case fuse_all cfg dc ds of Inl e \<Rightarrow> Inl e | Inr ens \<Rightarrow> Inr (en # ens)))"

text \<open>The OverlayRenderer as a pure function: it takes a buffer and the enriched
  detections and gives the annotated image; box, class name, confidence and distance at
  the offsets of lines 146-152.\<close>

definition draw_enriched :: "cvlib \<Rightarrow> image \<Rightarrow> enriched \<Rightarrow> image" where
  "draw_enriched L img en =
     (let b = e_box en;
          img1 = rectangle L img (b ! 0, b ! 1) (b ! 2, b ! 3) color 2;
          img2 = putText L img1 (e_name en) (b ! 0 + 10, b ! 1 + 20) color;
          img3 = putText L img2 (percent_text (e_confidence en)) (b ! 0 + 10, b ! 1 + 40) color
      in putText L img3 (format_2f (e_depth en) @ ''m'') (b ! 0 + 10, b ! 1 + 60) color)"

definition OverlayRenderer :: "cvlib \<Rightarrow> image \<Rightarrow> enriched list \<Rightarrow> image" where
  "OverlayRenderer L img ens = foldl (draw_enriched L) img ens"

subsection \<open>The end of the program\<close>




subsection \<open>Notions and instances used to state the properties\<close>

text \<open>The two values binary floating point produces for \<open>maxDisparity = 100\<close>: the
  quotient \<open>255 / 100\<close> rounds to \<open>2871044762448691 / 2^50\<close> and its product with 100 to
  \<open>255 - 2^-45\<close>. Every other value used below is exact in binary floating point.\<close>

definition round_sample :: "real \<Rightarrow> real" where
  "round_sample x =
     (if x = 255 / 100 then 2871044762448691 / 1125899906842624
      else if x = 100 * (2871044762448691 / 1125899906842624)
      then 8972014882652159 / 35184372088832
      else x)"

definition input_flat :: tick_input where
  "input_flat = no_input\<lparr>inDisparity := Some flat_frame\<rparr>"

definition input_person :: tick_input where
  "input_person = no_input\<lparr>inDet := Some [person_mid]\<rparr>"

text \<open>The effects of lines 146-155: drawing, the line printed for a detection, and showing
  the frame.\<close>

definition overlay_event :: "event \<Rightarrow> bool" where
  "overlay_event ev =
     (case ev of Rectangle p1 p2 \<Rightarrow> True | PutText t p \<Rightarrow> True | Imshow \<Rightarrow> True
      | Print t \<Rightarrow> take 20 t = ''Item Classification:'' | _ \<Rightarrow> False)"


definition pixel_at :: "image option \<Rightarrow> nat \<Rightarrow> nat \<Rightarrow> colour option" where
  "pixel_at buf r c = map_option (\<lambda>img. cell img r c) buf"


definition input_packets :: tick_input where
  "input_packets = no_input\<lparr>inDet := Some [person_mid], encoded := [[1, 2], [3]]\<rparr>"

section \<open>Properties\<close>

subsection \<open>Auxiliary facts about the numeric conversions\<close>

lemma unat_astype_uint8: "0 \<le> x \<Longrightarrow> unat (astype_uint8 x) = nat \<lfloor>x\<rfloor> mod 256"
  by (simp add: astype_uint8_def py_int_def unat_eq_nat_uint uint_word_of_int nat_mod_distrib)

lemma normalize_px_in_range:
  assumes "0 < maxD" "real raw \<le> maxD"
  shows "unat (normalize_px (255 / maxD) raw) = nat \<lfloor>real raw * (255 / maxD)\<rfloor>"
    and "\<lfloor>real raw * (255 / maxD)\<rfloor> \<le> 255"
proof -
  have "real raw * (255 / maxD) \<le> 255" using assms by (simp add: field_simps)
  then show le: "\<lfloor>real raw * (255 / maxD)\<rfloor> \<le> 255" by (simp add: floor_le_iff)
  have nn: "0 \<le> real raw * (255 / maxD)" using assms by simp
  have "nat \<lfloor>real raw * (255 / maxD)\<rfloor> < 256" using le by linarith
  then show "unat (normalize_px (255 / maxD) raw) = nat \<lfloor>real raw * (255 / maxD)\<rfloor>"
    using nn by (simp add: normalize_px_def unat_astype_uint8)
qed

lemma unsigned_real_pos: "d \<noteq> 0 \<Longrightarrow> (0::real) < unsigned (d :: 8 word)"
  by (metis of_nat_unat of_nat_0_less_iff unat_gt_0)

lemma divide_px_pos:
  "d \<noteq> 0 \<Longrightarrow> divide_px f d = Fin (f * baseline / real (unat d))"
  using unsigned_real_pos[of d] by (simp add: divide_px_def np_divide_def)

subsection \<open>Normalised disparity\<close>

text \<open>
  C1, as the claim states it, fails: the specification rounds and clamps, the cast of
  line 132 drops the fraction and keeps the low eight bits. With \<open>maxDisparity = 96\<close>
  the multiplier is exactly \<open>85/32\<close> and the raw sample 128 gives exactly 340, which the
  cast turns into 84, where clamping gives 255.
\<close>

theorem normalize_px_not_clamped:
  "disparityMultiplier 96 = Inr (255 / 96) \<and>
   unat (normalize_px (255 / 96) 128) = 84 \<and>
   normalizedDisparity_spec 96 128 = 255 \<and>
   int (unat (normalize_px (255 / 96) 128)) \<noteq> normalizedDisparity_spec 96 128"
  by (simp add: disparityMultiplier_def normalize_px_def astype_uint8_def py_int_def
      normalizedDisparity_spec_def clamp_def round_def)

lemma normalize_px_exact: "normalize_px mult raw = normalize_px_fl (\<lambda>x. x) mult raw"
  by (simp add: normalize_px_def normalize_px_fl_def)

lemma rel_err_bounds:
  fixes x y u :: real
  assumes "0 \<le> x" "\<bar>y - x\<bar> \<le> x * u"
  shows "x * (1 - u) \<le> y" "y \<le> x * (1 + u)"
  using assms by (simp_all add: abs_le_iff algebra_simps)

text \<open>
  C1, amended to what the code computes: for every raw sample and every
  \<open>maxDisparity > 0\<close>, with the quotient \<open>255 / maxDisparity\<close> and the product each rounded
  to binary floating point with a relative error of at most \<open>2^-53\<close>, the normalised sample
  is the rounded product with its fraction dropped, modulo 256 (not rounded to the nearest
  integer, not clamped). For a raw sample of at most \<open>maxDisparity\<close> the rounded product
  is within \<open>2^-44\<close> of the exact \<open>raw * 255 / maxDisparity\<close> and below 256, so nothing
  wraps and the value lies in 0..255.
\<close>

theorem normalize_px_fl_truncates:
  assumes pos: "0 < maxDisparity"
    and r1: "\<bar>fl (255 / maxDisparity) - 255 / maxDisparity\<bar>
               \<le> (255 / maxDisparity) * (1 / 2 ^ 53)"
    and r2: "\<bar>fl (real raw * fl (255 / maxDisparity)) - real raw * fl (255 / maxDisparity)\<bar>
               \<le> (real raw * fl (255 / maxDisparity)) * (1 / 2 ^ 53)"
  shows "disparityMultiplier_fl fl maxDisparity = Inr (fl (255 / maxDisparity)) \<and>
     unat (normalize_px_fl fl (fl (255 / maxDisparity)) raw)
       = nat \<lfloor>fl (real raw * fl (255 / maxDisparity))\<rfloor> mod 256 \<and>
     (real raw \<le> maxDisparity \<longrightarrow>
        unat (normalize_px_fl fl (fl (255 / maxDisparity)) raw)
          = nat \<lfloor>fl (real raw * fl (255 / maxDisparity))\<rfloor> \<and>
        unat (normalize_px_fl fl (fl (255 / maxDisparity)) raw) \<le> 255 \<and>
        \<bar>fl (real raw * fl (255 / maxDisparity)) - real raw * (255 / maxDisparity)\<bar>
          \<le> 1 / 2 ^ 44)"
proof -
  define u :: real where "u = 1 / 2 ^ 53"
  define c where "c = 255 / maxDisparity"
  define m where "m = fl c"
  define x where "x = real raw * m"
  define p where "p = fl x"
  define q where "q = real raw * c"
  have u: "0 < u" "u < 1" by (simp_all add: u_def)
  have c0: "0 < c" using pos by (simp add: c_def)
  have mb: "c * (1 - u) \<le> m" "m \<le> c * (1 + u)"
    using rel_err_bounds[of c m u] c0 r1 by (simp_all add: m_def c_def u_def)
  have m0: "0 \<le> m" using mb(1) c0 u by (smt (verit) mult_nonneg_nonneg)
  have x0: "0 \<le> x" using m0 by (simp add: x_def)
  have pb: "x * (1 - u) \<le> p" "p \<le> x * (1 + u)"
    using rel_err_bounds[of x p u] x0 r2 by (simp_all add: p_def x_def m_def c_def u_def)
  have p0: "0 \<le> p" using pb(1) x0 u by (smt (verit) mult_nonneg_nonneg)
  have a: "disparityMultiplier_fl fl maxDisparity = Inr m"
    using pos by (simp add: disparityMultiplier_fl_def m_def c_def)
  have b: "unat (normalize_px_fl fl m raw) = nat \<lfloor>p\<rfloor> mod 256"
    using p0 by (simp add: normalize_px_fl_def unat_astype_uint8 p_def x_def)
  have d: "unat (normalize_px_fl fl m raw) = nat \<lfloor>p\<rfloor> \<and>
        unat (normalize_px_fl fl m raw) \<le> 255 \<and> \<bar>p - q\<bar> \<le> 1 / 2 ^ 44"
    if r: "real raw \<le> maxDisparity"
  proof -
    have q0: "0 \<le> q" using c0 by (simp add: q_def)
    have q255: "q \<le> 255" using r pos by (simp add: q_def c_def field_simps)
    have xb: "q * (1 - u) \<le> x" "x \<le> q * (1 + u)"
      using mb mult_left_mono[of "c * (1 - u)" m "real raw"]
        mult_left_mono[of m "c * (1 + u)" "real raw"]
      by (simp_all add: x_def q_def algebra_simps)
    have "x * (1 + u) \<le> q * (1 + u) * (1 + u)"
      using xb(2) u by (intro mult_right_mono) simp_all
    then have up: "p \<le> q * (1 + u) * (1 + u)" using pb(2) by linarith
    have "q * (1 - u) * (1 - u) \<le> x * (1 - u)"
      using xb(1) u by (intro mult_right_mono) simp_all
    then have lo: "q * (1 - u) * (1 - u) \<le> p" using pb(1) by linarith
    have e: "\<bar>p - q\<bar> \<le> q * (2 * u + u * u)"
    proof -
      have "p - q \<le> q * (2 * u + u * u)" using up by (simp add: algebra_simps)
      moreover have "q - p \<le> q * (2 * u - u * u)" using lo by (simp add: algebra_simps)
      moreover have "q * (2 * u - u * u) \<le> q * (2 * u + u * u)"
        using q0 u by (intro mult_left_mono) simp_all
      ultimately show ?thesis by (simp add: abs_le_iff)
    qed
    have "q * (2 * u + u * u) \<le> 255 * (2 * u + u * u)"
      using q255 u by (intro mult_right_mono) simp_all
    also have "\<dots> \<le> 1 / 2 ^ 44" by (simp add: u_def)
    finally have e2: "\<bar>p - q\<bar> \<le> 1 / 2 ^ 44" using e by simp
    have "(1::real) / 2 ^ 44 < 1" by simp
    then have "p < 256" using e2 q255 by linarith
    then have "\<lfloor>p\<rfloor> < 256" by (simp add: floor_less_iff)
    then have lt: "nat \<lfloor>p\<rfloor> < 256" by linarith
    show ?thesis using b lt e2 by simp
  qed
  show ?thesis using a b d unfolding m_def p_def x_def q_def c_def by blast
qed

text \<open>
  The theorem at the two inputs of interest. For \<open>maxDisparity = 100\<close> and the raw sample
  100 the rounded product is \<open>255 - 2^-45\<close> and the normalised value 254, where the exact
  quotient is 255. For \<open>maxDisparity = 96\<close> and the raw sample 128 nothing is rounded and
  the normalised value is 84.
\<close>

theorem normalize_px_fl_truncates_witness:
  "(0::real) < 100 \<and>
   round_sample (255 / 100) = 2871044762448691 / 1125899906842624 \<and>
   unat (normalize_px_fl round_sample (round_sample (255 / 100)) 100) = 254 \<and>
   (0::real) < 96 \<and> round_sample (255 / 96) = 255 / 96 \<and>
   unat (normalize_px_fl round_sample (round_sample (255 / 96)) 128) = 84"
proof -
  have r1: "\<bar>round_sample (255 / 100) - 255 / 100\<bar> \<le> (255 / 100) * (1 / 2 ^ 53)"
    by (simp add: round_sample_def)
  have r2: "\<bar>round_sample (real 100 * round_sample (255 / 100))
              - real 100 * round_sample (255 / 100)\<bar>
               \<le> (real 100 * round_sample (255 / 100)) * (1 / 2 ^ 53)"
    by (simp add: round_sample_def)
  have p: "round_sample (real 100 * round_sample (255 / 100))
             = 8972014882652159 / 35184372088832"
    by (simp add: round_sample_def)
  have "unat (normalize_px_fl round_sample (round_sample (255 / 100)) 100)
             = nat \<lfloor>round_sample (real 100 * round_sample (255 / 100))\<rfloor>"
    using normalize_px_fl_truncates[of 100 round_sample 100, OF _ r1 r2] by simp
  then have v254: "unat (normalize_px_fl round_sample (round_sample (255 / 100)) 100) = 254"
    unfolding p by simp
  have s1: "\<bar>round_sample (255 / 96) - 255 / 96\<bar> \<le> (255 / 96) * (1 / 2 ^ 53)"
    by (simp add: round_sample_def)
  have s2: "\<bar>round_sample (real 128 * round_sample (255 / 96))
              - real 128 * round_sample (255 / 96)\<bar>
               \<le> (real 128 * round_sample (255 / 96)) * (1 / 2 ^ 53)"
    by (simp add: round_sample_def)
  have d: "round_sample (real 128 * round_sample (255 / 96)) = 340"
    by (simp add: round_sample_def)
  have "unat (normalize_px_fl round_sample (round_sample (255 / 96)) 128)
             = nat \<lfloor>round_sample (real 128 * round_sample (255 / 96))\<rfloor> mod 256"
    using normalize_px_fl_truncates[of 96 round_sample 128, OF _ s1 s2] by simp
  then have v84: "unat (normalize_px_fl round_sample (round_sample (255 / 96)) 128) = 84"
    unfolding d by simp
  have a: "round_sample (255 / 100) = 2871044762448691 / 1125899906842624"
    "round_sample (255 / 96) = 255 / 96"
    by (simp_all add: round_sample_def)
  show ?thesis using a v254 v84 by simp
qed

subsection \<open>Depth\<close>

text \<open>
  C2: every pixel of the depth map computed in lines 133-135 is a finite number, never an
  infinity or NaN, and nothing is raised (the function is total); the map has the shape of
  the disparity frame. With a positive focal length the pixel is 0 exactly when the
  normalised disparity there is 0, and otherwise it is
  \<open>(focal * baseline) / disparity\<close>, which is positive.
\<close>

theorem depth_zero_iff_disparity_zero:
  "(\<exists>v. cell (depth_of_frame focal fd) r c = Fin v) \<and>
   nrows (depth_of_frame focal fd) = nrows fd \<and>
   ncols (depth_of_frame focal fd) = ncols fd \<and>
   (0 < focal \<longrightarrow>
      (cell (depth_of_frame focal fd) r c = Fin 0 \<longleftrightarrow> cell fd r c = 0) \<and>
      (cell fd r c \<noteq> 0 \<longrightarrow>
         cell (depth_of_frame focal fd) r c
           = Fin ((focal * baseline) / real (unat (cell fd r c))) \<and>
         0 < (focal * baseline) / real (unat (cell fd r c))))"
  using unsigned_real_pos[of "cell fd r c"]
  by (auto simp: depth_of_frame_def mask_zero_def gmap_def divide_px_pos baseline_def)

theorem depth_zero_iff_disparity_zero_witness:
  "(0::real) < 450 \<and>
   cell (normalize_frame (255 / 95) black_frame) 7 9 = 0 \<and>
   cell (depth_of_frame 450 (normalize_frame (255 / 95) black_frame)) 7 9 = Fin 0 \<and>
   cell (normalize_frame (255 / 95) flat_frame) 7 9 = 53 \<and>
   cell (depth_of_frame 450 (normalize_frame (255 / 95) flat_frame)) 7 9 = Fin (3375 / 5300)"
  using depth_zero_iff_disparity_zero[of 450 "normalize_frame (255 / 95) black_frame" 7 9]
    depth_zero_iff_disparity_zero[of 450 "normalize_frame (255 / 95) flat_frame" 7 9]
  by (simp add: normalize_frame_def gmap_def black_frame_def flat_frame_def normalize_px_def
      astype_uint8_def py_int_def baseline_def)

text \<open>
  C4, as the claim states it, fails in two ways. A raw sample above \<open>maxDisparity\<close> wraps
  around: with \<open>maxDisparity = 96\<close> the samples 96 and 97 are normalised to 255 and 1, so
  the larger raw disparity gets the larger depth. And when the multiplier is below 1
  (\<open>maxDisparity = 760\<close>) the samples 3 and 4 are both normalised to 1 and get the same
  depth.
\<close>

theorem depth_not_decreasing:
  "(96::nat) < 97 \<and>
   normalize_px (255 / 96) 96 = 255 \<and> normalize_px (255 / 96) 97 = 1 \<and>
   depth_of_raw (255 / 96) 450 96 = Fin (9 / 68) \<and>
   depth_of_raw (255 / 96) 450 97 = Fin (135 / 4) \<and> (9 / 68 :: real) < 135 / 4 \<and>
   (3::nat) < 4 \<and>
   normalize_px (255 / 760) 3 = 1 \<and> normalize_px (255 / 760) 4 = 1 \<and>
   depth_of_raw (255 / 760) 450 3 = depth_of_raw (255 / 760) 450 4"
  by (simp add: depth_of_raw_def normalize_px_def astype_uint8_def py_int_def divide_px_def
      np_divide_def baseline_def)

text \<open>
  C4, amended: for a maximal disparity of at most 255 (a multiplier of at least 1), a
  positive focal length and raw samples \<open>d1 < d2\<close> that do not exceed the maximal
  disparity, if both normalised disparities are positive then both depths are finite and
  the depth of \<open>d1\<close> is strictly larger than the depth of \<open>d2\<close>.
\<close>

theorem depth_strictly_decreasing:
  assumes maxD: "0 < maxDisparity" "maxDisparity \<le> 255"
    and f: "0 < focal"
    and lt: "d1 < d2" and rng: "real d2 \<le> maxDisparity"
    and p1: "normalize_px (255 / maxDisparity) d1 \<noteq> 0"
    and p2: "normalize_px (255 / maxDisparity) d2 \<noteq> 0"
  shows "\<exists>v1 v2. depth_of_raw (255 / maxDisparity) focal d1 = Fin v1 \<and>
                 depth_of_raw (255 / maxDisparity) focal d2 = Fin v2 \<and> v2 < v1"
proof -
  define m where "m = 255 / maxDisparity"
  define n1 where "n1 = \<lfloor>real d1 * m\<rfloor>"
  define n2 where "n2 = \<lfloor>real d2 * m\<rfloor>"
  have m1: "1 \<le> m" using maxD by (simp add: m_def)
  have r1: "real d1 \<le> maxDisparity" using lt rng by simp
  have u1: "unat (normalize_px m d1) = nat n1"
    unfolding m_def n1_def using normalize_px_in_range(1)[OF maxD(1) r1] .
  have u2: "unat (normalize_px m d2) = nat n2"
    unfolding m_def n2_def using normalize_px_in_range(1)[OF maxD(1) rng] .
  have "unat (normalize_px m d1) \<noteq> 0" using p1 by (simp add: m_def unat_eq_0)
  then have n1pos: "1 \<le> n1" using u1 by linarith
  have "real d1 + 1 \<le> real d2" using lt by linarith
  then have "(real d1 + 1) * m \<le> real d2 * m" using m1 by (simp add: mult_right_mono)
  then have "real d1 * m + 1 \<le> real d2 * m" using m1 by (simp add: algebra_simps)
  then have "\<lfloor>real d1 * m + 1\<rfloor> \<le> \<lfloor>real d2 * m\<rfloor>" by (rule floor_mono)
  then have n12: "n1 + 1 \<le> n2" by (simp add: n1_def n2_def)
  have fb: "0 < focal * baseline" using f by (simp add: baseline_def)
  have e1: "depth_of_raw m focal d1 = Fin (focal * baseline / real_of_int n1)"
    using p1 u1 n1pos by (simp add: depth_of_raw_def Let_def divide_px_pos m_def)
  have e2: "depth_of_raw m focal d2 = Fin (focal * baseline / real_of_int n2)"
    using p2 u2 n1pos n12 by (simp add: depth_of_raw_def Let_def divide_px_pos m_def)
  have "focal * baseline / real_of_int n2 < focal * baseline / real_of_int n1"
    using fb n1pos n12 by (simp add: divide_strict_left_mono)
  then show ?thesis using e1 e2 by (simp add: m_def)
qed

theorem depth_strictly_decreasing_witness:
  "(0::real) < 95 \<and> (95::real) \<le> 255 \<and> (0::real) < 450 \<and> (20::nat) < 21 \<and>
   real 21 \<le> (95::real) \<and>
   normalize_px (255 / 95) 20 \<noteq> 0 \<and> normalize_px (255 / 95) 21 \<noteq> 0 \<and>
   (\<exists>v1 v2. depth_of_raw (255 / 95) 450 20 = Fin v1 \<and>
            depth_of_raw (255 / 95) 450 21 = Fin v2 \<and> v2 < v1)"
proof -
  have p1: "normalize_px (255 / 95) 20 \<noteq> 0"
    by (simp add: normalize_px_def astype_uint8_def py_int_def)
  have p2: "normalize_px (255 / 95) 21 \<noteq> 0"
    by (simp add: normalize_px_def astype_uint8_def py_int_def)
  have "\<exists>v1 v2. depth_of_raw (255 / 95) 450 20 = Fin v1 \<and>
            depth_of_raw (255 / 95) 450 21 = Fin v2 \<and> v2 < v1"
    using depth_strictly_decreasing[of 95 450 20 21] p1 p2 by simp
  then show ?thesis using p1 p2 by simp
qed

subsection \<open>Bounding boxes\<close>

lemma frameNorm_4:
  "frameNorm (h, w) [a, b, c, d] =
     [py_int (np_clip a 0 1 * real w), py_int (np_clip b 0 1 * real h),
      py_int (np_clip c 0 1 * real w), py_int (np_clip d 0 1 * real h)]"
  by (simp add: frameNorm_def upt_rec)

lemma add_even_4: "add_even off [a, b, c, d] = [a + off, b, c + off, d]"
  by (simp add: add_even_def upt_rec)

lemma py_int_clip_bounds:
  "0 \<le> py_int (np_clip v 0 1 * real n) \<and> py_int (np_clip v 0 1 * real n) \<le> int n"
proof -
  have c: "0 \<le> np_clip v 0 1" "np_clip v 0 1 \<le> 1" by (simp_all add: np_clip_def)
  have nn: "0 \<le> np_clip v 0 1 * real n" using c by simp
  have "np_clip v 0 1 * real n \<le> 1 * real n" using c by (intro mult_right_mono) simp_all
  then have "\<lfloor>np_clip v 0 1 * real n\<rfloor> \<le> int n" by (simp add: floor_le_iff)
  then show ?thesis using nn by (simp add: py_int_def)
qed

lemma pixel_box_eq:
  "pixel_box cfg d =
     [py_int (np_clip (xmin d) 0 1 * real (resolutionHeight cfg)) + offsetX cfg,
      py_int (np_clip (ymin d) 0 1 * real (resolutionHeight cfg)),
      py_int (np_clip (xmax d) 0 1 * real (resolutionHeight cfg)) + offsetX cfg,
      py_int (np_clip (ymax d) 0 1 * real (resolutionHeight cfg))]"
  by (simp add: pixel_box_def croppedFrame_shape_def frameNorm_4 add_even_4)

lemma offsetX_bounds:
  "resolutionHeight cfg \<le> resolutionWidth cfg \<Longrightarrow>
     0 \<le> offsetX cfg \<and> int (resolutionHeight cfg) + offsetX cfg \<le> int (resolutionWidth cfg)"
  by (simp add: offsetX_def)

text \<open>
  C5: on a sensor at least as wide as it is high (the 400P camera of line 53 is 640 by
  400), so that \<open>min width height\<close> is the height the code scales with: each of the four
  box coordinates is clamped to [0,1] and then scaled by \<open>squareDim\<close>, on both axes, so
  every coordinate before the offset lies in \<open>[0, squareDim]\<close>; the offset is added to the
  two x coordinates only, and afterwards the x coordinates lie in \<open>[0, width]\<close> and the
  y coordinates in \<open>[0, height]\<close>.
\<close>

theorem pixel_box_within_sensor:
  "resolutionHeight cfg \<le> resolutionWidth cfg \<Longrightarrow>
   (let squareDim = min (resolutionWidth cfg) (resolutionHeight cfg);
        pre = frameNorm (croppedFrame_shape cfg) [xmin d, ymin d, xmax d, ymax d];
        box = pixel_box cfg d
    in pre = map (\<lambda>v. py_int (np_clip v 0 1 * real squareDim))
               [xmin d, ymin d, xmax d, ymax d] \<and>
       (\<forall>v \<in> set pre. 0 \<le> v \<and> v \<le> int squareDim) \<and>
       box = [pre ! 0 + offsetX cfg, pre ! 1, pre ! 2 + offsetX cfg, pre ! 3] \<and>
       (\<forall>i \<in> {0, 2}. 0 \<le> box ! i \<and> box ! i \<le> int (resolutionWidth cfg)) \<and>
       (\<forall>i \<in> {1, 3}. 0 \<le> box ! i \<and> box ! i \<le> int (resolutionHeight cfg)))"
proof -
  assume wide: "resolutionHeight cfg \<le> resolutionWidth cfg"
  define squareDim where "squareDim = min (resolutionWidth cfg) (resolutionHeight cfg)"
  define pre where "pre = frameNorm (croppedFrame_shape cfg) [xmin d, ymin d, xmax d, ymax d]"
  have sq: "squareDim = resolutionHeight cfg" using wide by (simp add: squareDim_def)
  have p: "pre = map (\<lambda>v. py_int (np_clip v 0 1 * real squareDim))
                   [xmin d, ymin d, xmax d, ymax d]"
    by (simp add: pre_def sq croppedFrame_shape_def frameNorm_4)
  have b: "\<forall>v \<in> set pre. 0 \<le> v \<and> v \<le> int squareDim"
    unfolding p using py_int_clip_bounds by simp
  have pb: "pixel_box cfg d = [pre ! 0 + offsetX cfg, pre ! 1, pre ! 2 + offsetX cfg, pre ! 3]"
    by (simp add: pixel_box_eq p sq)
  have x: "\<forall>i \<in> {0, 2}. 0 \<le> pixel_box cfg d ! i \<and>
             pixel_box cfg d ! i \<le> int (resolutionWidth cfg)"
    using offsetX_bounds[OF wide] py_int_clip_bounds[of "xmin d" "resolutionHeight cfg"]
      py_int_clip_bounds[of "xmax d" "resolutionHeight cfg"]
    by (simp add: pixel_box_eq)
  have y: "\<forall>i \<in> {1, 3}. 0 \<le> pixel_box cfg d ! i \<and>
             pixel_box cfg d ! i \<le> int (resolutionHeight cfg)"
    using py_int_clip_bounds[of "ymin d" "resolutionHeight cfg"]
      py_int_clip_bounds[of "ymax d" "resolutionHeight cfg"]
    by (simp add: pixel_box_eq)
  show ?thesis
    unfolding Let_def squareDim_def[symmetric] pre_def[symmetric]
    using p b pb x y by blast
qed

theorem pixel_box_within_sensor_witness:
  "resolutionHeight session_400p \<le> resolutionWidth session_400p \<and>
   frameNorm (croppedFrame_shape session_400p)
     [xmin wild_box, ymin wild_box, xmax wild_box, ymax wild_box] = [0, 120, 400, 200] \<and>
   pixel_box session_400p wild_box = [120, 120, 520, 200]"
  using pixel_box_within_sensor[of session_400p wild_box]
  by (simp add: session_400p_def wild_box_def Let_def np_clip_def py_int_def offsetX_def)

subsection \<open>Drawing one detection\<close>

lemma draw_fields [simp]:
  "depth_calculated (cv_rectangle L p1 p2 s) = depth_calculated s"
  "depth_calculated (cv_putText L t p s) = depth_calculated s"
  "depth_calculated (py_print t s) = depth_calculated s"
  "detections (cv_rectangle L p1 p2 s) = detections s"
  "detections (cv_putText L t p s) = detections s"
  "detections (py_print t s) = detections s"
  "frame (cv_rectangle L p1 p2 s) = frame s"
  "frame (cv_putText L t p s) = frame s"
  "frame (py_print t s) = frame s"
  "frameManip (cv_rectangle L p1 p2 s) = frameManip s"
  "frameManip (cv_putText L t p s) = frameManip s"
  "frameManip (py_print t s) = frameManip s"
  "trace (cv_rectangle L p1 p2 s) = trace s @ [Rectangle p1 p2]"
  "trace (cv_putText L t p s) = trace s @ [PutText t p]"
  "trace (py_print t s) = trace s @ [Print t]"
  "frameDisparity (cv_rectangle L p1 p2 s)
     = map_option (\<lambda>img. rectangle L img p1 p2 color 2) (frameDisparity s)"
  "frameDisparity (cv_putText L t p s)
     = map_option (\<lambda>img. putText L img t p color) (frameDisparity s)"
  "frameDisparity (py_print t s) = frameDisparity s"
  by (simp_all add: cv_rectangle_def cv_putText_def py_print_def)

lemma render_detection_skipped:
  "list_get labelMap (label d) = Inr name \<Longrightarrow> name \<notin> set includedLabels \<Longrightarrow>
     render_detection cfg L d s = (s, None)"
  by (simp add: render_detection_def)

lemma render_detection_rendered:
  assumes "list_get labelMap (label d) = Inr name" "name \<in> set includedLabels"
    and "center (pixel_box cfg d) = (cx, cy)"
    and "depth_lookup (depth_calculated s) cy cx = Inr v"
  shows "snd (render_detection cfg L d s) = None"
    and "trace (fst (render_detection cfg L d s)) = trace s @
      [Rectangle (pixel_box cfg d ! 0, pixel_box cfg d ! 1)
         (pixel_box cfg d ! 2, pixel_box cfg d ! 3),
       PutText name (pixel_box cfg d ! 0 + 10, pixel_box cfg d ! 1 + 20),
       PutText (percent_text (confidence d)) (pixel_box cfg d ! 0 + 10, pixel_box cfg d ! 1 + 40),
       PutText (format_2f v @ ''m'') (pixel_box cfg d ! 0 + 10, pixel_box cfg d ! 1 + 60),
       Print (observability_line name v (confidence d))]"
  using assms by (simp_all add: render_detection_def Let_def)

lemma render_detection_raised:
  assumes "list_get labelMap (label d) = Inr name" "name \<in> set includedLabels"
    and "center (pixel_box cfg d) = (cx, cy)"
    and "depth_lookup (depth_calculated s) cy cx = Inl e"
  shows "snd (render_detection cfg L d s) = Some e"
    and "trace (fst (render_detection cfg L d s)) = trace s @
      [Rectangle (pixel_box cfg d ! 0, pixel_box cfg d ! 1)
         (pixel_box cfg d ! 2, pixel_box cfg d ! 3),
       PutText name (pixel_box cfg d ! 0 + 10, pixel_box cfg d ! 1 + 20),
       PutText (percent_text (confidence d)) (pixel_box cfg d ! 0 + 10, pixel_box cfg d ! 1 + 40)]"
  using assms by (simp_all add: render_detection_def Let_def)

lemma labels:
  "list_get labelMap 15 = Inr ''person''" "''person'' \<in> set includedLabels"
  "list_get labelMap 12 = Inr ''dog''" "''dog'' \<notin> set includedLabels"
  by (simp_all add: list_get_def labelMap_def includedLabels_def)

lemma depth_lookup_row_out:
  "int (nrows g) \<le> row \<Longrightarrow> depth_lookup (Some g) row col = Inl IndexError"
  by (simp add: depth_lookup_def grid_get_def axis_index_def)

lemma shape_depth_of_frame [simp]:
  "nrows (depth_of_frame f (normalize_frame m raw)) = nrows raw"
  "ncols (depth_of_frame f (normalize_frame m raw)) = ncols raw"
  by (simp_all add: depth_of_frame_def mask_zero_def gmap_def normalize_frame_def)

subsection \<open>A box on the bottom edge\<close>

lemma pixel_box_person_bottom: "pixel_box session_400p person_bottom = [200, 400, 280, 400]"
  by (simp add: pixel_box_def add_even_def frameNorm_def croppedFrame_shape_def offsetX_def
      session_400p_def person_bottom_def np_clip_def py_int_def upt_rec)

lemma center_person_bottom: "center (pixel_box session_400p person_bottom) = (240, 400)"
  by (simp add: pixel_box_person_bottom center_def py_int_def)

lemma poll_input_bottom:
  "depth_calculated (poll session_400p sample_cv input_bottom initial_state)
     = Some (depth_of_frame (focal_length session_400p)
               (normalize_frame (multiplier session_400p) flat_frame))"
  "detections (poll session_400p sample_cv input_bottom initial_state) = [person_bottom]"
  "trace (poll session_400p sample_cv input_bottom initial_state) = [FileOpen, NamedWindow]"
  "frameDisparity (poll session_400p sample_cv input_bottom initial_state) \<noteq> None"
  by (simp_all add: poll_def input_bottom_def no_input_def initial_state_def Let_def)

lemma lookup_person_bottom:
  "depth_lookup (depth_calculated (poll session_400p sample_cv input_bottom initial_state))
     400 240 = Inl IndexError"
  unfolding poll_input_bottom(1) by (rule depth_lookup_row_out) (simp add: flat_frame_def)

lemma render_person_bottom_raises:
  "snd (render_detection session_400p sample_cv person_bottom
          (poll session_400p sample_cv input_bottom initial_state)) = Some IndexError"
  by (rule render_detection_raised(1)[OF _ labels(2) center_person_bottom lookup_person_bottom])
    (simp add: person_bottom_def labels)

text \<open>
  C3: the code does not clamp the centre. A detection whose \<open>ymin\<close> and \<open>ymax\<close> are both
  1.0 (label 15, person) on the 640 by 400 sensor gets the pixel box (200, 400, 280, 400)
  and the centre (240, 400); the depth map has 400 rows, so the lookup of line 151
  raises \<open>IndexError\<close>, and with it the pass and the program.
\<close>

theorem center_row_outside_depth_map:
  "center (pixel_box session_400p person_bottom) = (240, 400) \<and>
   nrows (depth_of_frame (focal_length session_400p)
            (normalize_frame (multiplier session_400p) flat_frame)) = 400 \<and>
   snd (tick session_400p sample_cv input_bottom initial_state) = Some IndexError \<and>
   snd (main session_400p sample_cv [input_bottom]) = Raised IndexError"
proof -
  have t: "snd (tick session_400p sample_cv input_bottom initial_state) = Some IndexError"
    using render_person_bottom_raises poll_input_bottom(2,4)
    by (auto simp: tick_def render_def split: prod.splits option.splits)
  have m: "snd (main session_400p sample_cv [input_bottom]) = Raised IndexError"
    using t by (auto simp: main_def split: prod.splits option.splits)
  show ?thesis using t m center_person_bottom by (simp add: flat_frame_def)
qed

text \<open>
  C6: for the same detection, whose label is on the allow-list, the pass draws the box,
  the class name and the confidence and then raises: no distance text is drawn, no line
  is printed and the frame is not shown.
\<close>

theorem allowed_detection_partly_rendered:
  "list_get labelMap (label person_bottom) = Inr ''person'' \<and>
   ''person'' \<in> set includedLabels \<and>
   trace (fst (tick session_400p sample_cv input_bottom initial_state)) =
     [FileOpen, NamedWindow, Rectangle (200, 400) (280, 400), PutText ''person'' (210, 420),
      PutText ''90%'' (210, 440)] \<and>
   snd (tick session_400p sample_cv input_bottom initial_state) = Some IndexError"
proof -
  let ?s = "poll session_400p sample_cv input_bottom initial_state"
  have l: "list_get labelMap (label person_bottom) = Inr ''person''"
    by (simp add: person_bottom_def labels)
  have c: "confidence person_bottom = 9 / 10" by (simp add: person_bottom_def)
  have pt: "percent_text (9 / 10) = ''90%''"
    by (simp add: percent_text_def str_int_def py_int_def str_nat.simps digit_char_def)
  have tr: "trace (fst (render_detection session_400p sample_cv person_bottom ?s)) =
     [FileOpen, NamedWindow, Rectangle (200, 400) (280, 400), PutText ''person'' (210, 420),
      PutText ''90%'' (210, 440)]"
    using render_detection_raised(2)[OF l labels(2) center_person_bottom lookup_person_bottom,
        of sample_cv]
    by (simp add: c poll_input_bottom(3) pixel_box_person_bottom pt)
  have "trace (fst (tick session_400p sample_cv input_bottom initial_state)) =
     [FileOpen, NamedWindow, Rectangle (200, 400) (280, 400), PutText ''person'' (210, 420),
      PutText ''90%'' (210, 440)] \<and>
   snd (tick session_400p sample_cv input_bottom initial_state) = Some IndexError"
    using render_person_bottom_raises tr poll_input_bottom(2,4)
    by (auto simp: tick_def render_def split: prod.splits option.splits)
  then show ?thesis using l labels(2) by simp
qed

subsection \<open>The confidence shown\<close>

lemma py_int_truncates:
  "real_of_int (py_int x) = sgn x * of_int \<lfloor>\<bar>x\<bar>\<rfloor>"
proof (cases "0 \<le> x")
  case True
  then show ?thesis by (cases "x = 0") (simp_all add: py_int_def sgn_if)
next
  case False
  then have "\<lceil>x\<rceil> = - \<lfloor>- x\<rfloor>" by (simp add: ceiling_def)
  then show ?thesis using False by (simp add: py_int_def sgn_if abs_if)
qed

text \<open>
  C10: for a rendered detection (its label is on the allow-list and the depth sample at its
  centre exists) the percentage in the overlay text and in the printed line is the same
  integer \<open>p\<close>, and \<open>p\<close> is the confidence times 100 truncated towards zero: its sign is
  that of the product and its magnitude the floor of the product's magnitude.
\<close>

theorem confidence_percent_truncated:
  assumes "list_get labelMap (label d) = Inr name" "name \<in> set includedLabels"
    and "center (pixel_box cfg d) = (cx, cy)"
    and "depth_lookup (depth_calculated s) cy cx = Inr v"
  shows "\<exists>p. real_of_int p = sgn (confidence d * 100) * of_int \<lfloor>\<bar>confidence d * 100\<bar>\<rfloor> \<and>
     trace (fst (render_detection cfg L d s)) = trace s @
      [Rectangle (pixel_box cfg d ! 0, pixel_box cfg d ! 1)
         (pixel_box cfg d ! 2, pixel_box cfg d ! 3),
       PutText name (pixel_box cfg d ! 0 + 10, pixel_box cfg d ! 1 + 20),
       PutText (str_int p @ ''%'') (pixel_box cfg d ! 0 + 10, pixel_box cfg d ! 1 + 40),
       PutText (format_2f v @ ''m'') (pixel_box cfg d ! 0 + 10, pixel_box cfg d ! 1 + 60),
       Print (''Item Classification: '' @ name @ '', Distance: '' @ format_2f v
                @ ''m, Confidence: '' @ str_int p @ ''%'')]"
proof (intro exI conjI)
  show "real_of_int (py_int (confidence d * 100))
          = sgn (confidence d * 100) * of_int \<lfloor>\<bar>confidence d * 100\<bar>\<rfloor>"
    by (rule py_int_truncates)
  show "trace (fst (render_detection cfg L d s)) = trace s @
      [Rectangle (pixel_box cfg d ! 0, pixel_box cfg d ! 1)
         (pixel_box cfg d ! 2, pixel_box cfg d ! 3),
       PutText name (pixel_box cfg d ! 0 + 10, pixel_box cfg d ! 1 + 20),
       PutText (str_int (py_int (confidence d * 100)) @ ''%'')
         (pixel_box cfg d ! 0 + 10, pixel_box cfg d ! 1 + 40),
       PutText (format_2f v @ ''m'') (pixel_box cfg d ! 0 + 10, pixel_box cfg d ! 1 + 60),
       Print (''Item Classification: '' @ name @ '', Distance: '' @ format_2f v
                @ ''m, Confidence: '' @ str_int (py_int (confidence d * 100)) @ ''%'')]"
    using render_detection_rendered(2)[OF assms, of L]
    by (simp add: percent_text_def observability_line_def)
qed

lemma poll_input_mid:
  "depth_calculated (poll session_400p sample_cv input_mid initial_state)
     = Some (depth_of_frame (focal_length session_400p)
               (normalize_frame (multiplier session_400p) flat_frame))"
  "detections (poll session_400p sample_cv input_mid initial_state) = [dog_mid, person_mid]"
  "trace (poll session_400p sample_cv input_mid initial_state) = [FileOpen, NamedWindow]"
  "frameDisparity (poll session_400p sample_cv input_mid initial_state)
     = Some (gmap (applyColorMap sample_cv) (normalize_frame (multiplier session_400p) flat_frame))"
  by (simp_all add: poll_def input_mid_def no_input_def initial_state_def Let_def)

lemma pixel_box_person_mid: "pixel_box session_400p person_mid = [280, 160, 360, 240]"
  by (simp add: pixel_box_def add_even_def frameNorm_def croppedFrame_shape_def offsetX_def
      session_400p_def person_mid_def np_clip_def py_int_def upt_rec)

lemma center_person_mid: "center (pixel_box session_400p person_mid) = (320, 200)"
  by (simp add: pixel_box_person_mid center_def py_int_def)

lemma depth_flat_cell:
  "cell (depth_of_frame (focal_length session_400p)
           (normalize_frame (multiplier session_400p) flat_frame)) r c = Fin (135 / 212)"
  by (simp add: depth_of_frame_def mask_zero_def gmap_def normalize_frame_def flat_frame_def
      normalize_px_def astype_uint8_def py_int_def divide_px_def np_divide_def baseline_def
      session_400p_def)

lemma lookup_person_mid:
  "depth_lookup (depth_calculated (poll session_400p sample_cv input_mid initial_state)) 200 320
     = Inr (Fin (135 / 212))"
  unfolding poll_input_mid(1)
  by (simp add: depth_lookup_def grid_get_def axis_index_def depth_flat_cell)
     (simp add: flat_frame_def)

lemma format_sample: "format_2f (Fin (135 / 212)) = ''0.64''"
  by (simp add: format_2f_def fixed2_def round_half_even_def str_nat.simps digit_char_def Let_def)

theorem confidence_percent_truncated_witness:
  "list_get labelMap (label person_mid) = Inr ''person'' \<and> ''person'' \<in> set includedLabels \<and>
   center (pixel_box session_400p person_mid) = (320, 200) \<and>
   depth_lookup (depth_calculated (poll session_400p sample_cv input_mid initial_state)) 200 320
     = Inr (Fin (135 / 212)) \<and>
   confidence person_mid = 999 / 1000 \<and>
   trace (fst (render_detection session_400p sample_cv person_mid
                 (poll session_400p sample_cv input_mid initial_state))) =
     [FileOpen, NamedWindow, Rectangle (280, 160) (360, 240), PutText ''person'' (290, 180),
      PutText ''99%'' (290, 200), PutText ''0.64m'' (290, 220),
      Print ''Item Classification: person, Distance: 0.64m, Confidence: 99%'']"
proof -
  have l: "list_get labelMap (label person_mid) = Inr ''person''"
    by (simp add: person_mid_def labels)
  have c: "confidence person_mid = 999 / 1000" by (simp add: person_mid_def)
  obtain p where p: "real_of_int p
        = sgn (confidence person_mid * 100) * of_int \<lfloor>\<bar>confidence person_mid * 100\<bar>\<rfloor>"
    and t: "trace (fst (render_detection session_400p sample_cv person_mid
                 (poll session_400p sample_cv input_mid initial_state))) =
       trace (poll session_400p sample_cv input_mid initial_state) @
      [Rectangle (pixel_box session_400p person_mid ! 0, pixel_box session_400p person_mid ! 1)
         (pixel_box session_400p person_mid ! 2, pixel_box session_400p person_mid ! 3),
       PutText ''person''
         (pixel_box session_400p person_mid ! 0 + 10, pixel_box session_400p person_mid ! 1 + 20),
       PutText (str_int p @ ''%'')
         (pixel_box session_400p person_mid ! 0 + 10, pixel_box session_400p person_mid ! 1 + 40),
       PutText (format_2f (Fin (135 / 212)) @ ''m'')
         (pixel_box session_400p person_mid ! 0 + 10, pixel_box session_400p person_mid ! 1 + 60),
       Print (''Item Classification: '' @ ''person'' @ '', Distance: ''
                @ format_2f (Fin (135 / 212)) @ ''m, Confidence: '' @ str_int p @ ''%'')]"
    using confidence_percent_truncated[OF l labels(2) center_person_mid lookup_person_mid,
        of sample_cv]
    by blast
  have "real_of_int p = 99" using p by (simp add: c)
  then have "p = 99" by linarith
  then have sp: "str_int p = ''99''" by (simp add: str_int_def str_nat.simps digit_char_def)
  show ?thesis
    using l labels(2) center_person_mid lookup_person_mid c t
    by (simp add: sp pixel_box_person_mid format_sample poll_input_mid(3))
qed

subsection \<open>Drawing in place\<close>

lemma fuse_skipped:
  "fuse cfg (depth_calculated s) d = Inr None \<Longrightarrow> render_detection cfg L d s = (s, None)"
  by (auto simp: fuse_def render_detection_def Let_def split: sum.splits if_splits prod.splits)

lemma fuse_drawn:
  assumes "fuse cfg (depth_calculated s) d = Inr (Some en)"
  shows "snd (render_detection cfg L d s) = None"
    and "frameDisparity (fst (render_detection cfg L d s))
           = map_option (\<lambda>img. draw_enriched L img en) (frameDisparity s)"
    and "depth_calculated (fst (render_detection cfg L d s)) = depth_calculated s"
  using assms
  by (auto simp: fuse_def render_detection_def draw_enriched_def Let_def option.map_comp comp_def
      split: sum.splits if_splits prod.splits)

lemma render_detections_fused:
  "fuse_all cfg (depth_calculated s) ds = Inr ens \<Longrightarrow>
     snd (render_detections cfg L ds s) = None \<and>
     frameDisparity (fst (render_detections cfg L ds s))
       = map_option (\<lambda>img. OverlayRenderer L img ens) (frameDisparity s) \<and>
     depth_calculated (fst (render_detections cfg L ds s)) = depth_calculated s"
proof (induction ds arbitrary: s ens)
  case Nil
  then show ?case by (simp add: OverlayRenderer_def option.map_ident)
next
  case (Cons d ds)
  show ?case
  proof (cases "fuse cfg (depth_calculated s) d")
    case (Inl e)
    then show ?thesis using Cons.prems by simp
  next
    case (Inr r)
    show ?thesis
    proof (cases r)
      case None
      then have f: "fuse cfg (depth_calculated s) d = Inr None" using Inr by simp
      then have "fuse_all cfg (depth_calculated s) ds = Inr ens" using Cons.prems by simp
      then show ?thesis using Cons.IH[of s ens] fuse_skipped[OF f, of L] by simp
    next
      case (Some en)
      then have f: "fuse cfg (depth_calculated s) d = Inr (Some en)" using Inr by simp
      obtain rest where r: "fuse_all cfg (depth_calculated s) ds = Inr rest" and e: "ens = en # rest"
        using Cons.prems f by (auto split: sum.splits)
      obtain s' where s': "render_detection cfg L d s = (s', None)"
        using fuse_drawn(1)[OF f, of L] by (cases "render_detection cfg L d s") simp
      have d': "depth_calculated s' = depth_calculated s"
        using fuse_drawn(3)[OF f, of L] s' by simp
      have i': "frameDisparity s' = map_option (\<lambda>img. draw_enriched L img en) (frameDisparity s)"
        using fuse_drawn(2)[OF f, of L] s' by simp
      have ih: "snd (render_detections cfg L ds s') = None \<and>
         frameDisparity (fst (render_detections cfg L ds s'))
           = map_option (\<lambda>img. OverlayRenderer L img rest) (frameDisparity s') \<and>
         depth_calculated (fst (render_detections cfg L ds s')) = depth_calculated s'"
        using Cons.IH[of s' rest] r d' by simp
      show ?thesis
        using ih d' by (simp add: s' e i' OverlayRenderer_def option.map_comp comp_def)
    qed
  qed
qed

lemma render_detection_keeps:
  "depth_calculated (fst (render_detection cfg L d s)) = depth_calculated s"
  "detections (fst (render_detection cfg L d s)) = detections s"
  "frame (fst (render_detection cfg L d s)) = frame s"
  "frameManip (fst (render_detection cfg L d s)) = frameManip s"
  "(frameDisparity (fst (render_detection cfg L d s)) = None) = (frameDisparity s = None)"
  by (auto simp: render_detection_def Let_def split: sum.splits prod.splits)

lemma render_detections_keeps:
  "depth_calculated (fst (render_detections cfg L ds s)) = depth_calculated s \<and>
   detections (fst (render_detections cfg L ds s)) = detections s \<and>
   frame (fst (render_detections cfg L ds s)) = frame s \<and>
   frameManip (fst (render_detections cfg L ds s)) = frameManip s \<and>
   ((frameDisparity (fst (render_detections cfg L ds s)) = None) = (frameDisparity s = None))"
proof (induction ds arbitrary: s)
  case Nil
  then show ?case by simp
next
  case (Cons d ds)
  obtain s' eo where r: "render_detection cfg L d s = (s', eo)"
    by (cases "render_detection cfg L d s")
  have k: "depth_calculated s' = depth_calculated s" "detections s' = detections s"
    "frame s' = frame s" "frameManip s' = frameManip s"
    "(frameDisparity s' = None) = (frameDisparity s = None)"
    using render_detection_keeps[of cfg L d s] r by simp_all
  show ?case
  proof (cases eo)
    case None
    then show ?thesis using Cons.IH[of s'] k by (simp add: r)
  next
    case (Some e)
    then show ?thesis using k by (simp add: r)
  qed
qed

lemma render_keeps:
  "depth_calculated (fst (render cfg L s)) = depth_calculated s"
  "detections (fst (render cfg L s)) = detections s"
  "frame (fst (render cfg L s)) = frame s"
  "frameManip (fst (render cfg L s)) = frameManip s"
  "(frameDisparity (fst (render cfg L s)) = None) = (frameDisparity s = None)"
  using render_detections_keeps[of cfg L "detections s" s]
  by (auto simp: render_def split: option.splits prod.splits)

lemma render_fused:
  assumes "frameDisparity s = Some img"
    and "fuse_all cfg (depth_calculated s) (detections s) = Inr ens"
  shows "snd (render cfg L s) = None"
    and "frameDisparity (fst (render cfg L s)) = Some (OverlayRenderer L img ens)"
  using render_detections_fused[OF assms(2), of L] assms(1)
  by (auto simp: render_def split: prod.splits option.splits)

lemma dog_label: "list_get labelMap (label dog_mid) = Inr ''dog''"
  by (simp add: dog_mid_def list_get_def labelMap_def)

lemma person_label: "list_get labelMap (label person_mid) = Inr ''person''"
  by (simp add: person_mid_def list_get_def labelMap_def)

lemma allow: "''person'' \<in> set includedLabels" "''dog'' \<notin> set includedLabels"
  by (simp_all add: includedLabels_def)

lemma fuse_input_mid:
  "fuse_all session_400p (depth_calculated (poll session_400p sample_cv input_mid initial_state))
     [dog_mid, person_mid]
   = Inr [\<lparr>e_name = ''person'', e_confidence = 999 / 1000, e_box = [280, 160, 360, 240],
           e_depth = Fin (135 / 212)\<rparr>]"
proof -
  let ?dc = "depth_calculated (poll session_400p sample_cv input_mid initial_state)"
  have d: "fuse session_400p ?dc dog_mid = Inr None"
    by (simp add: fuse_def dog_label allow)
  have p: "fuse session_400p ?dc person_mid
     = Inr (Some \<lparr>e_name = ''person'', e_confidence = 999 / 1000, e_box = [280, 160, 360, 240],
           e_depth = Fin (135 / 212)\<rparr>)"
    using center_person_mid lookup_person_mid
    by (simp add: fuse_def person_label allow Let_def pixel_box_person_mid)
       (simp add: person_mid_def)
  show ?thesis by (simp add: d p)
qed

lemma base_pixel:
  "cell (gmap (applyColorMap sample_cv) (normalize_frame (multiplier session_400p) flat_frame))
     160 280 = (53, 53, 53)"
  by (simp add: gmap_def normalize_frame_def flat_frame_def sample_cv_def session_400p_def
      normalize_px_def astype_uint8_def py_int_def)

lemma sample_rectangle_corner:
  "cell (rectangle sample_cv img (280, 160) (360, 240) col 2) 160 280 = col"
  by (simp add: sample_cv_def paint_def)

lemma sample_putText_keeps:
  "cell img r c = col \<Longrightarrow> cell (putText sample_cv img txt org col) r c = col"
  by (cases org) (simp add: sample_cv_def paint_def)

lemma annotated_pixel:
  "cell (OverlayRenderer sample_cv img
           [\<lparr>e_name = ''person'', e_confidence = 999 / 1000, e_box = [280, 160, 360, 240],
             e_depth = Fin (135 / 212)\<rparr>]) 160 280 = color"
  unfolding OverlayRenderer_def draw_enriched_def Let_def foldl.simps
  by (intro sample_putText_keeps) (simp add: sample_rectangle_corner)

text \<open>
  C7, as the claim states it, fails: the renderer draws on the buffer it is given. After a
  pass that received a disparity frame and a person detection, the colourised frame the
  renderer started from has the grey value (53, 53, 53) at row 160, column 280; the cached
  \<^verbatim>\<open>frameDisparity\<close> after rendering has the drawing colour there. The cache no longer
  holds the colourised base.
\<close>

theorem render_mutates_cached_frame:
  "pixel_at (frameDisparity (poll session_400p sample_cv input_mid initial_state)) 160 280
     = Some (53, 53, 53) \<and>
   pixel_at (frameDisparity (fst (render session_400p sample_cv
                (poll session_400p sample_cv input_mid initial_state)))) 160 280
     = Some (0, 255, 0) \<and>
   frameDisparity (fst (render session_400p sample_cv
                (poll session_400p sample_cv input_mid initial_state)))
     \<noteq> frameDisparity (poll session_400p sample_cv input_mid initial_state)"
proof -
  let ?s = "poll session_400p sample_cv input_mid initial_state"
  have fd: "frameDisparity ?s
     = Some (gmap (applyColorMap sample_cv) (normalize_frame (multiplier session_400p) flat_frame))"
    by (rule poll_input_mid(4))
  have fu: "fuse_all session_400p (depth_calculated ?s) (detections ?s)
     = Inr [\<lparr>e_name = ''person'', e_confidence = 999 / 1000, e_box = [280, 160, 360, 240],
           e_depth = Fin (135 / 212)\<rparr>]"
    unfolding poll_input_mid(2) by (rule fuse_input_mid)
  have p0: "pixel_at (frameDisparity ?s) 160 280 = Some (53, 53, 53)"
    by (simp add: fd pixel_at_def base_pixel)
  have px: "pixel_at (frameDisparity (fst (render session_400p sample_cv ?s))) 160 280 = Some color"
    unfolding render_fused(2)[OF fd fu] by (simp add: pixel_at_def annotated_pixel)
  have ne: "frameDisparity (fst (render session_400p sample_cv ?s)) \<noteq> frameDisparity ?s"
  proof
    assume "frameDisparity (fst (render session_400p sample_cv ?s)) = frameDisparity ?s"
    then have "pixel_at (frameDisparity (fst (render session_400p sample_cv ?s))) 160 280
                = pixel_at (frameDisparity ?s) 160 280" by simp
    then show False unfolding px p0 by (simp add: color_def)
  qed
  show ?thesis using p0 px ne by (simp add: color_def)
qed

text \<open>
  C7, amended: when a buffer is cached and the fuser succeeds on every cached detection,
  the rendering of lines 141-155 raises nothing and leaves in the cache
  \<^verbatim>\<open>frameDisparity\<close> the image that the pure renderer computes from the buffer cached
  before and the enriched detections. The annotated image is thus a function of these two
  inputs alone, but it is written into the cached buffer itself: no new buffer is
  returned, and a second rendering from the same cache starts from the annotated image,
  not from the colourised base.
\<close>

theorem render_writes_cached_frame:
  assumes "frameDisparity s = Some img"
    and "fuse_all cfg (depth_calculated s) (detections s) = Inr ens"
  shows "snd (render cfg L s) = None \<and>
     frameDisparity (fst (render cfg L s)) = Some (OverlayRenderer L img ens) \<and>
     frameDisparity (fst (render cfg L (fst (render cfg L s))))
       = Some (OverlayRenderer L (OverlayRenderer L img ens) ens)"
proof -
  let ?s1 = "fst (render cfg L s)"
  have a: "frameDisparity ?s1 = Some (OverlayRenderer L img ens)"
    by (rule render_fused(2)[OF assms])
  have "fuse_all cfg (depth_calculated ?s1) (detections ?s1) = Inr ens"
    using assms(2) by (simp add: render_keeps)
  then have b: "frameDisparity (fst (render cfg L ?s1))
       = Some (OverlayRenderer L (OverlayRenderer L img ens) ens)"
    by (rule render_fused(2)[OF a])
  show ?thesis using render_fused(1)[OF assms] a b by simp
qed

theorem render_writes_cached_frame_witness:
  "frameDisparity (poll session_400p sample_cv input_mid initial_state)
     = Some (gmap (applyColorMap sample_cv) (normalize_frame (multiplier session_400p) flat_frame)) \<and>
   fuse_all session_400p (depth_calculated (poll session_400p sample_cv input_mid initial_state))
       (detections (poll session_400p sample_cv input_mid initial_state))
     = Inr [\<lparr>e_name = ''person'', e_confidence = 999 / 1000, e_box = [280, 160, 360, 240],
             e_depth = Fin (135 / 212)\<rparr>] \<and>
   snd (render session_400p sample_cv (poll session_400p sample_cv input_mid initial_state)) = None \<and>
   pixel_at (frameDisparity (fst (render session_400p sample_cv
       (poll session_400p sample_cv input_mid initial_state)))) 160 280 = Some (0, 255, 0)"
proof -
  let ?s = "poll session_400p sample_cv input_mid initial_state"
  let ?en = "\<lparr>e_name = ''person'', e_confidence = 999 / 1000, e_box = [280, 160, 360, 240],
             e_depth = Fin (135 / 212)\<rparr>"
  have fd: "frameDisparity ?s
     = Some (gmap (applyColorMap sample_cv) (normalize_frame (multiplier session_400p) flat_frame))"
    by (rule poll_input_mid(4))
  have fu: "fuse_all session_400p (depth_calculated ?s) (detections ?s) = Inr [?en]"
    unfolding poll_input_mid(2) by (rule fuse_input_mid)
  have r: "snd (render session_400p sample_cv ?s) = None"
    and i: "frameDisparity (fst (render session_400p sample_cv ?s))
       = Some (OverlayRenderer sample_cv
           (gmap (applyColorMap sample_cv) (normalize_frame (multiplier session_400p) flat_frame))
           [?en])"
    using render_writes_cached_frame[OF fd fu, of sample_cv] by simp_all
  have px: "pixel_at (frameDisparity (fst (render session_400p sample_cv ?s))) 160 280
              = Some (0, 255, 0)"
    unfolding i by (simp add: pixel_at_def annotated_pixel) (simp add: color_def)
  show ?thesis using fd fu r px by (intro conjI)
qed

subsection \<open>Polling and the first disparity frame\<close>

lemma overlay_simps [simp]:
  "overlay_event (Rectangle p1 p2)" "overlay_event (PutText t p)" "overlay_event Imshow"
  "\<not> overlay_event FileOpen" "\<not> overlay_event NamedWindow" "\<not> overlay_event (FileWrite b)"
  "\<not> overlay_event FileClose"
  "overlay_event (Print (observability_line name v c))"
  by (simp_all add: overlay_event_def observability_line_def)




lemma poll_fields:
  "trace (poll cfg L inp s) = trace s @ map FileWrite (encoded inp)"
  "inRight inp = None \<Longrightarrow> frame (poll cfg L inp s) = frame s"
  "inManip inp = None \<Longrightarrow> frameManip (poll cfg L inp s) = frameManip s"
  "inDet inp = None \<Longrightarrow> detections (poll cfg L inp s) = detections s"
  "inDisparity inp = None \<Longrightarrow> frameDisparity (poll cfg L inp s) = frameDisparity s"
  "inDisparity inp = None \<Longrightarrow> depth_calculated (poll cfg L inp s) = depth_calculated s"
  by (simp_all add: poll_def Let_def split: option.splits)

lemma render_nothing: "frameDisparity s = None \<Longrightarrow> render cfg L s = (s, None)"
  by (simp add: render_def)

lemma epilogue_fields [simp]:
  "frameDisparity (epilogue s) = frameDisparity s"
  "depth_calculated (epilogue s) = depth_calculated s"
  "trace (epilogue s) = trace s @
     [Print (''To view the encoded data, convert the stream file (.h265) into a ''
                    @ ''video file (.mp4) using a command below:''),
      Print ''ffmpeg -framerate 30 -i video.h265 -c copy video.mp4'']"
  by (simp_all add: epilogue_def)

lemma epilogue_not_overlay:
  "\<not> overlay_event (Print (''To view the encoded data, convert the stream file (.h265) into a ''
                    @ ''video file (.mp4) using a command below:''))"
  "\<not> overlay_event (Print ''ffmpeg -framerate 30 -i video.h265 -c copy video.mp4'')"
  by (simp_all add: overlay_event_def)

lemma run_without_disparity:
  "frameDisparity s = None \<Longrightarrow> \<forall>i \<in> set inps. inDisparity i = None \<Longrightarrow>
     frameDisparity (fst (run cfg L inps s)) = None \<and>
     depth_calculated (fst (run cfg L inps s)) = depth_calculated s \<and>
     snd (run cfg L inps s) \<in> {Polling, Terminated} \<and>
     (\<forall>ev \<in> set (trace (fst (run cfg L inps s))). overlay_event ev \<longrightarrow> ev \<in> set (trace s))"
proof (induction inps arbitrary: s)
  case Nil
  then show ?case by simp
next
  case (Cons i inps)
  let ?s1 = "poll cfg L i s"
  have nd: "inDisparity i = None" using Cons.prems by simp
  have f: "frameDisparity ?s1 = None" using Cons.prems nd by (simp add: poll_fields)
  have d: "depth_calculated ?s1 = depth_calculated s" using nd by (simp add: poll_fields)
  have t: "tick cfg L i s = (?s1, None)" using f by (simp add: tick_def render_nothing)
  have tr: "trace ?s1 = trace s @ map FileWrite (encoded i)" by (simp add: poll_fields)
  show ?case
  proof (cases "key i = ord_q")
    case True
    then have r: "run cfg L (i # inps) s = (epilogue ?s1, Terminated)" using t by simp
    show ?thesis unfolding r using f d tr epilogue_not_overlay by auto
  next
    case False
    then have r: "run cfg L (i # inps) s = run cfg L inps ?s1" using t by simp
    have ih: "frameDisparity (fst (run cfg L inps ?s1)) = None \<and>
     depth_calculated (fst (run cfg L inps ?s1)) = depth_calculated ?s1 \<and>
     snd (run cfg L inps ?s1) \<in> {Polling, Terminated} \<and>
     (\<forall>ev \<in> set (trace (fst (run cfg L inps ?s1))). overlay_event ev \<longrightarrow> ev \<in> set (trace ?s1))"
      using Cons.IH[OF f] Cons.prems by simp
    show ?thesis unfolding r using ih d tr by auto
  qed
qed

lemma tick_input_flat:
  "frameDisparity (fst (tick session_400p sample_cv input_flat initial_state))
     = Some (gmap (applyColorMap sample_cv) (normalize_frame (multiplier session_400p) flat_frame))"
  "depth_calculated (fst (tick session_400p sample_cv input_flat initial_state))
     = Some (depth_of_frame (focal_length session_400p)
               (normalize_frame (multiplier session_400p) flat_frame))"
  "detections (fst (tick session_400p sample_cv input_flat initial_state)) = []"
  by (simp_all add: tick_def render_def poll_def Let_def input_flat_def no_input_def
      initial_state_def)

text \<open>
  C8, as the claim states it, fails for the disparity stream. A first pass receives a
  disparity frame and no detection; a second pass receives a person detection and no
  disparity frame. The cached \<^verbatim>\<open>frameDisparity\<close> has the grey value (53, 53, 53) at row
  160, column 280 after the first pass and the drawing colour after the second, although
  the read of the disparity stream returned nothing.
\<close>

theorem absent_read_frame_drawn_on:
  "inDisparity input_person = None \<and>
   pixel_at (frameDisparity (fst (tick session_400p sample_cv input_flat initial_state))) 160 280
     = Some (53, 53, 53) \<and>
   pixel_at (frameDisparity (fst (tick session_400p sample_cv input_person
       (fst (tick session_400p sample_cv input_flat initial_state))))) 160 280
     = Some (0, 255, 0)"
proof -
  let ?s1 = "fst (tick session_400p sample_cv input_flat initial_state)"
  let ?s2 = "poll session_400p sample_cv input_person ?s1"
  let ?base = "gmap (applyColorMap sample_cv) (normalize_frame (multiplier session_400p) flat_frame)"
  have n: "inDisparity input_person = None" by (simp add: input_person_def no_input_def)
  have fd: "frameDisparity ?s2 = Some ?base"
    using n by (simp add: poll_fields tick_input_flat)
  have dc: "depth_calculated ?s2 = depth_calculated (poll session_400p sample_cv input_mid initial_state)"
    using n by (simp add: poll_fields tick_input_flat poll_input_mid)
  have ds: "detections ?s2 = [person_mid]"
    by (simp add: poll_def Let_def input_person_def no_input_def)
  have p: "fuse session_400p (depth_calculated ?s2) person_mid
     = Inr (Some \<lparr>e_name = ''person'', e_confidence = 999 / 1000, e_box = [280, 160, 360, 240],
           e_depth = Fin (135 / 212)\<rparr>)"
    unfolding dc using center_person_mid lookup_person_mid
    by (simp add: fuse_def person_label allow Let_def pixel_box_person_mid)
       (simp add: person_mid_def)
  have fu: "fuse_all session_400p (depth_calculated ?s2) (detections ?s2)
     = Inr [\<lparr>e_name = ''person'', e_confidence = 999 / 1000, e_box = [280, 160, 360, 240],
           e_depth = Fin (135 / 212)\<rparr>]"
    unfolding ds by (simp add: p)
  have p0: "pixel_at (frameDisparity ?s1) 160 280 = Some (53, 53, 53)"
    by (simp add: tick_input_flat pixel_at_def base_pixel)
  have t: "tick session_400p sample_cv input_person ?s1 = render session_400p sample_cv ?s2"
    by (rule tick_def)
  have i: "frameDisparity (fst (render session_400p sample_cv ?s2))
     = Some (OverlayRenderer sample_cv ?base
         [\<lparr>e_name = ''person'', e_confidence = 999 / 1000, e_box = [280, 160, 360, 240],
           e_depth = Fin (135 / 212)\<rparr>])"
    by (rule render_fused(2)[OF fd fu])
  have px: "pixel_at (frameDisparity (fst (tick session_400p sample_cv input_person ?s1))) 160 280
     = Some (0, 255, 0)"
    unfolding t i by (simp add: pixel_at_def annotated_pixel) (simp add: color_def)
  show ?thesis using n p0 px by (intro conjI)
qed

text \<open>
  C8, amended: a stream whose \<^verbatim>\<open>tryGet\<close> returned nothing keeps its cached variable
  through the polling of lines 115-139 (right frame, manip frame, detections, colourised
  disparity frame and depth map). The right frame, the manip frame, the detections and
  the depth map are also unchanged at the end of the pass; of the colourised disparity
  frame only this much holds at the end of the pass: it is absent exactly when it was
  absent before, since the renderer draws on it in place. And as long as no disparity
  frame has arrived since the start of the program, no pass converts, draws, prints a
  detection or shows a frame: the disparity cache stays empty, the depth map stays unset,
  nothing is raised, and the trace holds no overlay event.
\<close>

theorem absent_read_keeps_cache:
  "(inRight inp = None \<longrightarrow>
      frame (poll cfg L inp s) = frame s \<and> frame (fst (tick cfg L inp s)) = frame s) \<and>
   (inManip inp = None \<longrightarrow>
      frameManip (poll cfg L inp s) = frameManip s \<and>
      frameManip (fst (tick cfg L inp s)) = frameManip s) \<and>
   (inDet inp = None \<longrightarrow>
      detections (poll cfg L inp s) = detections s \<and>
      detections (fst (tick cfg L inp s)) = detections s) \<and>
   (inDisparity inp = None \<longrightarrow>
      frameDisparity (poll cfg L inp s) = frameDisparity s \<and>
      depth_calculated (poll cfg L inp s) = depth_calculated s \<and>
      depth_calculated (fst (tick cfg L inp s)) = depth_calculated s \<and>
      ((frameDisparity (fst (tick cfg L inp s)) = None) = (frameDisparity s = None))) \<and>
   ((\<forall>i \<in> set inps. inDisparity i = None) \<longrightarrow>
      frameDisparity (fst (main cfg L inps)) = None \<and>
      depth_calculated (fst (main cfg L inps)) = None \<and>
      snd (main cfg L inps) \<in> {Polling, Terminated} \<and>
      (\<forall>ev \<in> set (trace (fst (main cfg L inps))). \<not> overlay_event ev))"
proof -
  have 1: "inRight inp = None \<longrightarrow>
      frame (poll cfg L inp s) = frame s \<and> frame (fst (tick cfg L inp s)) = frame s"
    by (simp add: tick_def render_keeps poll_fields)
  have 2: "inManip inp = None \<longrightarrow>
      frameManip (poll cfg L inp s) = frameManip s \<and>
      frameManip (fst (tick cfg L inp s)) = frameManip s"
    by (simp add: tick_def render_keeps poll_fields)
  have 3: "inDet inp = None \<longrightarrow>
      detections (poll cfg L inp s) = detections s \<and>
      detections (fst (tick cfg L inp s)) = detections s"
    by (simp add: tick_def render_keeps poll_fields)
  have 4: "inDisparity inp = None \<longrightarrow>
      frameDisparity (poll cfg L inp s) = frameDisparity s \<and>
      depth_calculated (poll cfg L inp s) = depth_calculated s \<and>
      depth_calculated (fst (tick cfg L inp s)) = depth_calculated s \<and>
      ((frameDisparity (fst (tick cfg L inp s)) = None) = (frameDisparity s = None))"
    by (simp add: tick_def render_keeps poll_fields)
  have 5: "(\<forall>i \<in> set inps. inDisparity i = None) \<longrightarrow>
      frameDisparity (fst (main cfg L inps)) = None \<and>
      depth_calculated (fst (main cfg L inps)) = None \<and>
      snd (main cfg L inps) \<in> {Polling, Terminated} \<and>
      (\<forall>ev \<in> set (trace (fst (main cfg L inps))). \<not> overlay_event ev)"
  proof
    assume a: "\<forall>i \<in> set inps. inDisparity i = None"
    have f: "frameDisparity initial_state = None" by (simp add: initial_state_def)
    show "frameDisparity (fst (main cfg L inps)) = None \<and>
      depth_calculated (fst (main cfg L inps)) = None \<and>
      snd (main cfg L inps) \<in> {Polling, Terminated} \<and>
      (\<forall>ev \<in> set (trace (fst (main cfg L inps))). \<not> overlay_event ev)"
      using run_without_disparity[OF f a, of cfg L]
      by (auto simp: main_def initial_state_def)
  qed
  show ?thesis using 1 2 3 4 5 by (intro conjI)
qed

theorem absent_read_keeps_cache_witness:
  "inRight input_packets = None \<and> inManip input_packets = None \<and> inDet no_input = None \<and>
   inDisparity input_packets = None \<and> inDisparity no_input = None \<and>
   frameDisparity (fst (main session_400p sample_cv [input_packets, no_input])) = None \<and>
   snd (main session_400p sample_cv [input_packets, no_input]) = Polling \<and>
   trace (fst (main session_400p sample_cv [input_packets, no_input]))
     = [FileOpen, NamedWindow, FileWrite [1, 2], FileWrite [3]] \<and>
   detections (fst (main session_400p sample_cv [input_packets, no_input])) = [person_mid]"
proof -
  have n: "\<forall>i \<in> set [input_packets, no_input]. inDisparity i = None"
    by (simp add: input_packets_def no_input_def)
  have f: "frameDisparity (fst (main session_400p sample_cv [input_packets, no_input])) = None"
    using absent_read_keeps_cache[of input_packets session_400p sample_cv initial_state "[input_packets, no_input]"] n
    by blast
  have p1: "frameDisparity (poll session_400p sample_cv input_packets initial_state) = None"
    by (simp add: poll_fields input_packets_def no_input_def initial_state_def)
  have t1: "tick session_400p sample_cv input_packets initial_state
              = (poll session_400p sample_cv input_packets initial_state, None)"
    using p1 by (simp add: tick_def render_nothing)
  let ?s1 = "poll session_400p sample_cv input_packets initial_state"
  have p2: "frameDisparity (poll session_400p sample_cv no_input ?s1) = None"
    using p1 by (simp add: poll_fields no_input_def)
  have t2: "tick session_400p sample_cv no_input ?s1 = (poll session_400p sample_cv no_input ?s1, None)"
    using p2 by (simp add: tick_def render_nothing)
  have m: "main session_400p sample_cv [input_packets, no_input]
        = (poll session_400p sample_cv no_input ?s1, Polling)"
    by (simp add: main_def t1 t2) (simp add: input_packets_def no_input_def ord_q_def)
  have tr: "trace (poll session_400p sample_cv no_input ?s1)
     = [FileOpen, NamedWindow, FileWrite [1, 2], FileWrite [3]]"
    by (simp add: poll_fields) (simp add: input_packets_def no_input_def initial_state_def)
  have de: "detections (poll session_400p sample_cv no_input ?s1) = [person_mid]"
    by (simp add: poll_def Let_def input_packets_def no_input_def)
  show ?thesis using f m tr de by (simp add: input_packets_def no_input_def)
qed

subsection \<open>Leaving the loop\<close>













end
